theory Spec2Isabelle
  imports Complex_Main
begin

section \<open>Shared Python notions\<close>

text \<open>
  Exceptions of the modelled Python code are values of one datatype; a function that may
  raise returns \<open>pyerror + 'a\<close>, with \<open>Inl\<close> for the exception.
  \<open>Other\<close> stands for an exception raised by the body of a \<^verbatim>\<open>with\<close> block.
\<close>

datatype pyerror =
    KeyError
  | IndexError
  | ValueError
  | AttributeError
  | AssertionError
  | FileNotFoundError
  | StopIteration
  | Other string

section \<open>utils.get_indent\<close>

text \<open>
  \<^verbatim>\<open>
  def get_indent(line: str):
      white = []
      for char in line:
          if char in ' \t':
              white.append(char)
          else:
              return ''.join(white)
  \<close>
  The loop returns from inside only; when it runs to the end of the line the function
  falls off its end, which in Python is the value \<^verbatim>\<open>None\<close>.
\<close>

definition is_indent_char :: "char \<Rightarrow> bool" where
  "is_indent_char c \<longleftrightarrow> c = CHR '' '' \<or> c = CHR 0x09"

fun get_indent_loop :: "string \<Rightarrow> string \<Rightarrow> string option" where
  "get_indent_loop white [] = None"
| "get_indent_loop white (char # rest) =
     (if is_indent_char char then get_indent_loop (white @ [char]) rest
      else Some white)"

definition get_indent :: "string \<Rightarrow> string option" where
  "get_indent line = get_indent_loop [] line"

section \<open>utils.conv_bool and BOOL_LOOKUP\<close>

text \<open>
  The Python values \<open>conv_bool\<close> can be handed. Floats are modelled as reals (no NaN, no
  infinities); \<open>PyBytes\<close> stands for a hashable object that is neither text nor a number.
\<close>

datatype pyval =
    PyNone
  | PyBool bool
  | PyInt int
  | PyFloat real
  | PyStr string
  | PyBytes string

text \<open>
  \<open>str.casefold\<close>, on ASCII text: the upper-case letters \<open>A\<close> to \<open>Z\<close> are mapped to lower
  case, every other character is kept.
\<close>

definition casefold_char :: "char \<Rightarrow> char" where
  "casefold_char c =
     (case map_of (zip ''ABCDEFGHIJKLMNOPQRSTUVWXYZ'' ''abcdefghijklmnopqrstuvwxyz'') c of
        Some l \<Rightarrow> l
      | None \<Rightarrow> c)"

definition casefold :: "string \<Rightarrow> string" where
  "casefold s = map casefold_char s"

text \<open>
  The text keys of \<^verbatim>\<open>BOOL_LOOKUP\<close>, in the order of the source. The numeric keys
  \<^verbatim>\<open>False, 0, 1, True\<close> are handled in \<open>BOOL_LOOKUP\<close> below: a Python dict finds a key by
  hash and \<^verbatim>\<open>==\<close>, and \<^verbatim>\<open>False == 0 == 0.0\<close>, \<^verbatim>\<open>True == 1 == 1.0\<close>.
\<close>

definition BOOL_LOOKUP_text :: "(string \<times> bool) list" where
  "BOOL_LOOKUP_text =
     [(''0'', False), (''no'', False), (''false'', False), (''FALSE'', False),
      (''n'', False), (''f'', False),
      (''1'', True), (''yes'', True), (''true'', True), (''TRUE'', True),
      (''y'', True), (''t'', True)]"

fun BOOL_LOOKUP :: "pyval \<Rightarrow> bool option" where
  "BOOL_LOOKUP (PyBool b) = Some b"
| "BOOL_LOOKUP (PyInt i) = (if i = 0 then Some False else if i = 1 then Some True else None)"
| "BOOL_LOOKUP (PyFloat r) = (if r = 0 then Some False else if r = 1 then Some True else None)"
| "BOOL_LOOKUP (PyStr s) = map_of BOOL_LOOKUP_text s"
| "BOOL_LOOKUP PyNone = None"
| "BOOL_LOOKUP (PyBytes b) = None"

text \<open>
  \<^verbatim>\<open>
  def conv_bool(val, default=False):
      if val is None:
          return default
      try:
          return BOOL_LOOKUP[val]
      except KeyError:
          return BOOL_LOOKUP.get(val.casefold(), default)
  \<close>
  Only text has a \<^verbatim>\<open>casefold\<close> method: on any other value the handler itself raises
  \<^verbatim>\<open>AttributeError\<close>, which nothing catches.
\<close>

fun conv_bool :: "pyval \<Rightarrow> bool \<Rightarrow> pyerror + bool" where
  "conv_bool PyNone dflt = Inr dflt"
| "conv_bool val dflt =
     (case BOOL_LOOKUP val of
        Some b \<Rightarrow> Inr b
      | None \<Rightarrow>
          (case val of
             PyStr s \<Rightarrow>
               Inr (case BOOL_LOOKUP (PyStr (casefold s)) of Some b \<Rightarrow> b | None \<Rightarrow> dflt)
           | _ \<Rightarrow> Inl AttributeError))"

section \<open>utils.EmptyMapping\<close>

text \<open>
  The class has \<^verbatim>\<open>__slots__ = []\<close>: an instance holds no data at all, and the module keeps
  one instance only (\<^verbatim>\<open>EmptyMapping = EmptyMapping()\<close>). Every method is modelled as a
  function from the object to its result and the object afterwards.
\<close>

datatype EmptyMapping = EmptyMappingObj

definition em_getitem :: "EmptyMapping \<Rightarrow> 'k \<Rightarrow> (pyerror + 'v) \<times> EmptyMapping" where
  "em_getitem self item = (Inl KeyError, self)"

definition em_contains :: "EmptyMapping \<Rightarrow> 'k \<Rightarrow> bool" where
  "em_contains self item = False"

definition em_get :: "EmptyMapping \<Rightarrow> 'k \<Rightarrow> 'v option \<Rightarrow> (pyerror + 'v option) \<times> EmptyMapping" where
  "em_get self item dflt = (Inr dflt, self)"

definition em_bool :: "EmptyMapping \<Rightarrow> bool" where
  "em_bool self = False"

definition em_next :: "EmptyMapping \<Rightarrow> (pyerror + 'k) \<times> EmptyMapping" where
  "em_next self = (Inl StopIteration, self)"

definition em_len :: "EmptyMapping \<Rightarrow> nat" where
  "em_len self = 0"

definition em_iter :: "EmptyMapping \<Rightarrow> EmptyMapping" where
  "em_iter self = self"

text \<open>
  What a \<^verbatim>\<open>for\<close> loop over the mapping sees: \<^verbatim>\<open>__iter__\<close> is called once, then
  \<^verbatim>\<open>__next__\<close> until it raises \<^verbatim>\<open>StopIteration\<close>. The fuel bounds the number of calls;
  \<open>None\<close> is a loop that has not stopped within it, an exception other than
  \<^verbatim>\<open>StopIteration\<close> ends the loop with that exception.
\<close>

fun em_drain :: "nat \<Rightarrow> EmptyMapping \<Rightarrow> (pyerror + 'k list) option" where
  "em_drain 0 it = None"
| "em_drain (Suc fuel) it =
     (case em_next it of
        (Inl StopIteration, it') \<Rightarrow> Some (Inr [])
      | (Inl e, it') \<Rightarrow> Some (Inl e)
      | (Inr k, it') \<Rightarrow>
          (case em_drain fuel it' of
             Some (Inr ks) \<Rightarrow> Some (Inr (k # ks))
           | r \<Rightarrow> r))"

definition em_items :: "nat \<Rightarrow> EmptyMapping \<Rightarrow> (pyerror + 'k list) option" where
  "em_items fuel self = em_drain fuel (em_iter self)"

text \<open>\<^verbatim>\<open>setdefault = get\<close>\<close>

definition em_setdefault ::
  "EmptyMapping \<Rightarrow> 'k \<Rightarrow> 'v option \<Rightarrow> (pyerror + 'v option) \<times> EmptyMapping" where
  "em_setdefault = em_get"

text \<open>
  \<^verbatim>\<open>def update(*args, **kwds): pass\<close> and
  \<^verbatim>\<open>__setitem__ = __delitem__ = clear = update\<close>: whatever the arguments, nothing happens and
  \<^verbatim>\<open>None\<close> is returned.
\<close>

definition em_update :: "EmptyMapping \<Rightarrow> 'a \<Rightarrow> (pyerror + 'v option) \<times> EmptyMapping" where
  "em_update self args = (Inr None, self)"

definition em_setitem :: "EmptyMapping \<Rightarrow> 'k \<Rightarrow> 'v \<Rightarrow> (pyerror + 'v option) \<times> EmptyMapping" where
  "em_setitem self key val = em_update self (key, val)"

definition em_delitem :: "EmptyMapping \<Rightarrow> 'k \<Rightarrow> (pyerror + 'v option) \<times> EmptyMapping" where
  "em_delitem self key = em_update self key"

definition em_clear :: "EmptyMapping \<Rightarrow> (pyerror + 'v option) \<times> EmptyMapping" where
  "em_clear self = em_update self ()"

text \<open>
  \<^verbatim>\<open>
  def pop(self, key, default=__marker):
      if default is self.__marker:
          raise KeyError
      return default
  \<close>
  The argument \<open>default\<close> is \<open>None\<close> when the caller passed none (the marker), and
  \<open>Some d\<close> when the caller passed the Python value \<open>d\<close>.
\<close>

definition em_pop ::
  "EmptyMapping \<Rightarrow> 'k \<Rightarrow> 'v option \<Rightarrow> (pyerror + 'v) \<times> EmptyMapping" where
  "em_pop self key dflt =
     (case dflt of None \<Rightarrow> (Inl KeyError, self) | Some d \<Rightarrow> (Inr d, self))"

definition em_popitem :: "EmptyMapping \<Rightarrow> (pyerror + ('k \<times> 'v)) \<times> EmptyMapping" where
  "em_popitem self = (Inl KeyError, self)"

text \<open>
  The mutating operations as data, so that a program using the shared instance is a list
  of them; \<open>em_run\<close> performs it and returns the instance afterwards.
\<close>

datatype ('k, 'v) em_mutation =
    SetItem 'k 'v
  | DelItem 'k
  | Update "('k \<times> 'v) list"
  | Clear
  | SetDefault 'k "'v option"
  | PopDefault 'k 'v

fun em_apply :: "('k, 'v) em_mutation \<Rightarrow> EmptyMapping \<Rightarrow> (pyerror + 'v option) \<times> EmptyMapping" where
  "em_apply (SetItem k v) self = em_setitem self k v"
| "em_apply (DelItem k) self = em_delitem self k"
| "em_apply (Update kvs) self = em_update self kvs"
| "em_apply Clear self = em_clear self"
| "em_apply (SetDefault k d) self = em_setdefault self k d"
| "em_apply (PopDefault k d) self = (case em_pop self k (Some d) of (r, self') \<Rightarrow> (map_sum id Some r, self'))"

fun em_run :: "('k, 'v) em_mutation list \<Rightarrow> EmptyMapping \<Rightarrow> (pyerror + EmptyMapping)" where
  "em_run [] self = Inr self"
| "em_run (m # ms) self =
     (case em_apply m self of
        (Inl e, self') \<Rightarrow> Inl e
      | (Inr r, self') \<Rightarrow> em_run ms self')"

section \<open>utils.parse_str\<close>

text \<open>
  \<^verbatim>\<open>str.split(' ')\<close> with an explicit separator: the text is cut at every occurrence of the
  separator, so two adjacent separators, or a separator at either end, give an empty token.
  The result is never empty.
\<close>

fun split_acc :: "char \<Rightarrow> string \<Rightarrow> string \<Rightarrow> string list" where
  "split_acc sep cur [] = [rev cur]"
| "split_acc sep cur (c # cs) =
     (if c = sep then rev cur # split_acc sep [] cs else split_acc sep (c # cur) cs)"

definition py_split :: "char \<Rightarrow> string \<Rightarrow> string list" where
  "py_split sep s = split_acc sep [] s"

text \<open>
  A vector of three floats. Floats are modelled as reals: rounding error, infinities and NaN
  are outside the model.
\<close>

datatype Vec = Vec (vec_x: real) (vec_y: real) (vec_z: real)

datatype str_or_vec = Str string | AVec Vec

text \<open>
  \<^verbatim>\<open>
  def parse_str(val, x=0.0, y=0.0, z=0.0):
      if isinstance(val, Vec):
          return val.x, val.y, val.z
      try:
          str_x, str_y, str_z = val.split(' ')
      except ValueError:
          return x, y, z
      if str_x[0] in '({[<':
          str_x = str_x[1:]
      if str_z[-1] in ')}]>':
          str_z = str_z[:-1]
      try:
          return (float(str_x), float(str_y), float(str_z))
      except ValueError:
          return x, y, z
  \<close>
  The builtin \<^verbatim>\<open>float\<close> is the parameter \<open>pyfloat\<close>: \<open>None\<close> where it raises
  \<^verbatim>\<open>ValueError\<close>. Indexing an empty token (\<^verbatim>\<open>str_x[0]\<close>, \<^verbatim>\<open>str_z[-1]\<close>) raises
  \<^verbatim>\<open>IndexError\<close>, which neither \<^verbatim>\<open>try\<close> block covers.
\<close>

definition parse_str ::
  "(string \<Rightarrow> real option) \<Rightarrow> str_or_vec \<Rightarrow> real \<Rightarrow> real \<Rightarrow> real
     \<Rightarrow> pyerror + (real \<times> real \<times> real)" where
  "parse_str pyfloat val x y z =
     (case val of
        AVec v \<Rightarrow> Inr (vec_x v, vec_y v, vec_z v)
      | Str s \<Rightarrow>
          (case py_split CHR '' '' s of
             [str_x, str_y, str_z] \<Rightarrow>
               (if str_x = [] then Inl IndexError
                else
                  let str_x1 = (if hd str_x \<in> set ''({[<'' then tl str_x else str_x) in
                  if str_z = [] then Inl IndexError
                  else
                    let str_z1 = (if last str_z \<in> set '')}]>'' then butlast str_z else str_z) in
                    (case pyfloat str_x1 of
                       None \<Rightarrow> Inr (x, y, z)
                     | Some fx \<Rightarrow>
                         (case pyfloat str_y of
                            None \<Rightarrow> Inr (x, y, z)
                          | Some fy \<Rightarrow>
                              (case pyfloat str_z1 of
                                 None \<Rightarrow> Inr (x, y, z)
                               | Some fz \<Rightarrow> Inr (fx, fy, fz)))))
           | _ \<Rightarrow> Inr (x, y, z)))"

text \<open>
  A reading of float literals, for the concrete inputs below. Blanks around the text are
  dropped; then come an optional sign, digits with an optional point (at least one digit in
  all) and, optionally, an exponent: \<^verbatim>\<open>e\<close> or \<^verbatim>\<open>E\<close>, an optional sign and digits.
  The builtin \<^verbatim>\<open>float\<close> reads such a text to the nearest double, the model reads it
  exactly. Not covered are the texts \<^verbatim>\<open>inf\<close>, \<^verbatim>\<open>infinity\<close> and \<^verbatim>\<open>nan\<close>, which have no
  real value, and digits grouped by underscores. The general theorems take \<^verbatim>\<open>float\<close> as
  the parameter \<open>pyfloat\<close> and do not depend on this reading.
\<close>

definition is_blank :: "char \<Rightarrow> bool" where
  "is_blank c \<longleftrightarrow>
     c \<in> set [CHR '' '', CHR 0x09, CHR 0x0A, CHR 0x0B, CHR 0x0C, CHR 0x0D,
                CHR 0x1C, CHR 0x1D, CHR 0x1E, CHR 0x1F, CHR 0x85, CHR 0xA0]"

definition strip_blanks :: "string \<Rightarrow> string" where
  "strip_blanks s = rev (dropWhile is_blank (rev (dropWhile is_blank s)))"

definition digit_val :: "char \<Rightarrow> nat option" where
  "digit_val c =
     (let n = (of_char c :: nat) in if 48 \<le> n \<and> n \<le> 57 then Some (n - 48) else None)"

fun digits_val :: "nat \<Rightarrow> string \<Rightarrow> nat option" where
  "digits_val acc [] = Some acc"
| "digits_val acc (c # cs) =
     (case digit_val c of None \<Rightarrow> None | Some d \<Rightarrow> digits_val (10 * acc + d) cs)"

definition unsigned_decimal :: "string \<Rightarrow> real option" where
  "unsigned_decimal s =
     (let ip = takeWhile (\<lambda>c. c \<noteq> CHR ''.'') s;
          rest = dropWhile (\<lambda>c. c \<noteq> CHR ''.'') s;
          fp = (if rest = [] then [] else tl rest)
      in if ip = [] \<and> fp = [] then None
         else
           (case (digits_val 0 ip, digits_val 0 fp) of
              (Some i, Some f) \<Rightarrow> Some (real i + real f / 10 ^ length fp)
            | _ \<Rightarrow> None))"

definition signed_digits :: "string \<Rightarrow> int option" where
  "signed_digits t =
     (case t of
        [] \<Rightarrow> None
      | c # cs \<Rightarrow>
          if c = CHR ''-'' then (if cs = [] then None else map_option (\<lambda>n. - int n) (digits_val 0 cs))
          else if c = CHR ''+'' then (if cs = [] then None else map_option int (digits_val 0 cs))
          else map_option int (digits_val 0 t))"

definition is_exp_mark :: "char \<Rightarrow> bool" where
  "is_exp_mark c \<longleftrightarrow> c = CHR ''e'' \<or> c = CHR ''E''"

definition unsigned_float :: "string \<Rightarrow> real option" where
  "unsigned_float s =
     (let mant = takeWhile (\<lambda>c. \<not> is_exp_mark c) s;
          rest = dropWhile (\<lambda>c. \<not> is_exp_mark c) s
      in case unsigned_decimal mant of
           None \<Rightarrow> None
         | Some m \<Rightarrow>
             if rest = [] then Some m
             else
               (case signed_digits (tl rest) of
                  None \<Rightarrow> None
                | Some e \<Rightarrow> Some (if 0 \<le> e then m * 10 ^ nat e else m / 10 ^ nat (- e))))"

definition decimal_float :: "string \<Rightarrow> real option" where
  "decimal_float s =
     (case strip_blanks s of
        [] \<Rightarrow> None
      | c # cs \<Rightarrow>
          if c = CHR ''-'' then map_option uminus (unsigned_float cs)
          else if c = CHR ''+'' then unsigned_float cs
          else unsigned_float (c # cs))"

section \<open>utils.Vec\<close>

text \<open>
  \<^verbatim>\<open>Vec.from_str\<close>: \<^verbatim>\<open>x, y, z = parse_str(val, x, y, z); return cls(x, y, z)\<close>.
\<close>

definition from_str ::
  "(string \<Rightarrow> real option) \<Rightarrow> str_or_vec \<Rightarrow> real \<Rightarrow> real \<Rightarrow> real \<Rightarrow> pyerror + Vec" where
  "from_str pyfloat val x y z =
     (case parse_str pyfloat val x y z of
        Inl e \<Rightarrow> Inl e
      | Inr (px, py, pz) \<Rightarrow> Inr (Vec px py pz))"

text \<open>
  \<^verbatim>\<open>
  def mat_mul(self, matrix):
      a, b, c, d, e, f, g, h, i = matrix
      x, y, z = self.x, self.y, self.z
      self.x = (x * a) + (y * b) + (z * c)
      self.y = (x * d) + (y * e) + (z * f)
      self.z = (x * g) + (y * h) + (z * i)
  \<close>
\<close>

type_synonym matrix = "real \<times> real \<times> real \<times> real \<times> real \<times> real \<times> real \<times> real \<times> real"

fun mat_mul :: "Vec \<Rightarrow> matrix \<Rightarrow> Vec" where
  "mat_mul (Vec x y z) (a, b, c, d, e, f, g, h, i) =
     Vec ((x * a) + (y * b) + (z * c))
         ((x * d) + (y * e) + (z * f))
         ((x * g) + (y * h) + (z * i))"

text \<open>
  The builtin \<^verbatim>\<open>round\<close> is the parameter \<open>pyround\<close> of \<open>rotate\<close>: \<open>pyround v n\<close> is
  \<^verbatim>\<open>round(v, n)\<close>. For the concrete inputs below, \<open>py_round\<close> is the nearest multiple of
  \<open>1 / 10 ^ n\<close>, a tie going to the even one, which is what \<^verbatim>\<open>round\<close> does on the exact
  value of a double. The two differ where a decimal text that is a tie when read exactly
  (\<^verbatim>\<open>0.0005\<close>) is not one as a double; the general theorems do not depend on \<open>py_round\<close>.
  \<^verbatim>\<open>math.radians\<close> is \<open>d * pi / 180\<close>.
\<close>

definition round_half_even :: "real \<Rightarrow> int" where
  "round_half_even v =
     (let f = \<lfloor>v\<rfloor>; d = v - of_int f
      in if d < 1 / 2 then f else if 1 / 2 < d then f + 1 else if even f then f else f + 1)"

definition py_round :: "real \<Rightarrow> nat \<Rightarrow> real" where
  "py_round v n = of_int (round_half_even (v * 10 ^ n)) / 10 ^ n"

definition radians :: "real \<Rightarrow> real" where
  "radians d = d * pi / 180"

text \<open>
  \<^verbatim>\<open>
  def rotate(self, pitch=0.0, yaw=0.0, roll=0.0, round_vals=True):
      rad_pitch = math.radians(pitch); rad_yaw = math.radians(yaw)
      rad_roll = math.radians(roll)
      cos_p = math.cos(rad_pitch); cos_y = math.cos(rad_yaw); cos_r = math.cos(rad_roll)
      sin_p = math.sin(rad_pitch); sin_y = math.sin(rad_yaw); sin_r = math.sin(rad_roll)
      mat_roll = (1, 0, 0,   0, cos_r, -sin_r,   0, sin_r, cos_r)
      mat_yaw = (cos_y, -sin_y, 0,   sin_y, cos_y, 0,   0, 0, 1)
      mat_pitch = (cos_p, 0, sin_p,   0, 1, 0,   -sin_p, 0, cos_p)
      self.mat_mul(mat_roll)
      self.mat_mul(mat_pitch)
      self.mat_mul(mat_yaw)
      if round_vals:
          self.x = round(self.x, 3); self.y = round(self.y, 3); self.z = round(self.z, 3)
      return self
  \<close>
\<close>

definition rotate ::
  "(real \<Rightarrow> nat \<Rightarrow> real) \<Rightarrow> Vec \<Rightarrow> real \<Rightarrow> real \<Rightarrow> real \<Rightarrow> bool \<Rightarrow> Vec" where
  "rotate pyround self pitch yaw roll round_vals =
     (let rad_pitch = radians pitch;
          rad_yaw = radians yaw;
          rad_roll = radians roll;
          cos_p = cos rad_pitch;
          cos_y = cos rad_yaw;
          cos_r = cos rad_roll;
          sin_p = sin rad_pitch;
          sin_y = sin rad_yaw;
          sin_r = sin rad_roll;
          mat_roll = (1, 0, 0, 0, cos_r, - sin_r, 0, sin_r, cos_r);
          mat_yaw = (cos_y, - sin_y, 0, sin_y, cos_y, 0, 0, 0, 1);
          mat_pitch = (cos_p, 0, sin_p, 0, 1, 0, - sin_p, 0, cos_p);
          v1 = mat_mul self mat_roll;
          v2 = mat_mul v1 mat_pitch;
          v3 = mat_mul v2 mat_yaw
      in if round_vals
         then Vec (pyround (vec_x v3) 3) (pyround (vec_y v3) 3) (pyround (vec_z v3) 3)
         else v3)"

text \<open>
  \<^verbatim>\<open>
  def rotate_by_str(self, ang, pitch=0.0, yaw=0.0, roll=0.0, round_vals=True):
      pitch, yaw, roll = parse_str(ang, pitch, yaw, roll)
      return self.rotate(pitch, yaw, roll, round_vals)
  \<close>
\<close>

definition rotate_by_str ::
  "(string \<Rightarrow> real option) \<Rightarrow> (real \<Rightarrow> nat \<Rightarrow> real) \<Rightarrow> Vec \<Rightarrow> str_or_vec
     \<Rightarrow> real \<Rightarrow> real \<Rightarrow> real \<Rightarrow> bool \<Rightarrow> pyerror + Vec" where
  "rotate_by_str pyfloat pyround self ang pitch yaw roll round_vals =
     (case parse_str pyfloat ang pitch yaw roll of
        Inl e \<Rightarrow> Inl e
      | Inr (p, yw, r) \<Rightarrow> Inr (rotate pyround self p yw r round_vals))"

text \<open>
  The scalar forms of the operators the flags use: \<^verbatim>\<open>v * s\<close>, \<^verbatim>\<open>v // s\<close> (floor
  division of floats: the floor of the quotient, as a float), \<^verbatim>\<open>v + s\<close>, \<^verbatim>\<open>v + w\<close>,
  \<^verbatim>\<open>-v\<close>, \<^verbatim>\<open>v == w\<close> with a vector or a 3-tuple, and \<^verbatim>\<open>as_tuple\<close>. Division by zero
  (\<^verbatim>\<open>ZeroDivisionError\<close>) does not arise: the only divisor in the modelled code is 128.
\<close>

definition vec_mul :: "Vec \<Rightarrow> real \<Rightarrow> Vec" where
  "vec_mul v s = Vec (vec_x v * s) (vec_y v * s) (vec_z v * s)"

definition py_floordiv :: "real \<Rightarrow> real \<Rightarrow> real" where
  "py_floordiv a b = of_int \<lfloor>a / b\<rfloor>"

definition vec_floordiv :: "Vec \<Rightarrow> real \<Rightarrow> Vec" where
  "vec_floordiv v s = Vec (py_floordiv (vec_x v) s) (py_floordiv (vec_y v) s) (py_floordiv (vec_z v) s)"

definition vec_add_scalar :: "Vec \<Rightarrow> real \<Rightarrow> Vec" where
  "vec_add_scalar v s = Vec (vec_x v + s) (vec_y v + s) (vec_z v + s)"

definition vec_add :: "Vec \<Rightarrow> Vec \<Rightarrow> Vec" where
  "vec_add v w = Vec (vec_x v + vec_x w) (vec_y v + vec_y w) (vec_z v + vec_z w)"

definition vec_neg :: "Vec \<Rightarrow> Vec" where
  "vec_neg v = Vec (- vec_x v) (- vec_y v) (- vec_z v)"

definition vec_eq_tuple :: "Vec \<Rightarrow> real \<times> real \<times> real \<Rightarrow> bool" where
  "vec_eq_tuple self other \<longleftrightarrow>
     (case other of (a, b, c) \<Rightarrow> vec_x self = a \<and> vec_y self = b \<and> vec_z self = c)"

definition vec_eq :: "Vec \<Rightarrow> Vec \<Rightarrow> bool" where
  "vec_eq self other \<longleftrightarrow>
     vec_x other = vec_x self \<and> vec_y other = vec_y self \<and> vec_z other = vec_z self"

definition as_tuple :: "Vec \<Rightarrow> real \<times> real \<times> real" where
  "as_tuple self = (vec_x self, vec_y self, vec_z self)"

section \<open>conditions.positioning\<close>

text \<open>
  What the flags read of the instance: \<open>ent_angles\<close> is the keyvalue \<^verbatim>\<open>angles\<close> (\<open>None\<close> when
  the instance has none; the flags supply the default \<^verbatim>\<open>'0 0 0'\<close>), \<open>ent_origin\<close> is the value
  of \<^verbatim>\<open>inst['origin']\<close>.
\<close>

datatype Entity = Entity (ent_angles: "string option") (ent_origin: string)

text \<open>
  The option block of a flag: either a bare value (\<^verbatim>\<open>flag.has_children()\<close> is false and
  \<^verbatim>\<open>flag.value\<close> is the text), or a block whose keys \<^verbatim>\<open>direction\<close>, \<^verbatim>\<open>from_dir\<close> and
  \<^verbatim>\<open>allow_inverse\<close> may each be absent. \<open>key_default\<close> is the lookup \<^verbatim>\<open>obj[key, default]\<close>.
\<close>

datatype Property =
    Leaf string
  | Block (blk_direction: "string option") (blk_from_dir: "string option")
      (blk_allow_inverse: "string option")

definition key_default :: "string option \<Rightarrow> string \<Rightarrow> string" where
  "key_default v dflt = (case v of None \<Rightarrow> dflt | Some s \<Rightarrow> s)"

text \<open>
  The table \<^verbatim>\<open>DIRECTIONS\<close> is imported from the \<^verbatim>\<open>conditions\<close> package and is a parameter
  here: it maps a keyword to a direction vector or to the marker \<^verbatim>\<open>'WALL'\<close>.
\<close>

datatype direction = DirVec Vec | WALL

text \<open>
  The first half of \<^verbatim>\<open>flag_angles\<close>, which reads the options:
  \<^verbatim>\<open>
  if flag.has_children():
      targ_angle = flag['direction', '0 0 0']
      from_dir = flag['from_dir', '0 0 1']
      if from_dir.casefold() in DIRECTIONS:
          from_dir = Vec(DIRECTIONS[from_dir.casefold()])
      else:
          from_dir = Vec.from_str(from_dir, 0, 0, 1)
      allow_inverse = utils.conv_bool(flag['allow_inverse', '0'])
  else:
      targ_angle = flag.value
      from_dir = Vec(0, 0, 1)
      allow_inverse = False
  \<close>
  \<^verbatim>\<open>Vec(v)\<close> of a vector copies it; \<^verbatim>\<open>Vec('WALL')\<close> iterates over the text and calls
  \<^verbatim>\<open>float('W')\<close>, which raises \<^verbatim>\<open>ValueError\<close>.
\<close>

definition flag_angles_options ::
  "(string \<Rightarrow> real option) \<Rightarrow> (string \<rightharpoonup> direction) \<Rightarrow> Property
     \<Rightarrow> pyerror + (string \<times> Vec \<times> bool)" where
  "flag_angles_options pyfloat DIRECTIONS flag =
     (case flag of
        Block d f a \<Rightarrow>
          (let targ_angle = key_default d ''0 0 0'';
               from_dir = key_default f ''0 0 1''
           in case (case DIRECTIONS (casefold from_dir) of
                      Some (DirVec v) \<Rightarrow> Inr v
                    | Some WALL \<Rightarrow> Inl ValueError
                    | None \<Rightarrow> from_str pyfloat (Str from_dir) 0 0 1) of
                Inl e \<Rightarrow> Inl e
              | Inr from_vec \<Rightarrow>
                  (case conv_bool (PyStr (key_default a ''0'')) False of
                     Inl e \<Rightarrow> Inl e
                   | Inr allow_inverse \<Rightarrow> Inr (targ_angle, from_vec, allow_inverse)))
      | Leaf v \<Rightarrow> Inr (v, Vec 0 0 1, False))"

text \<open>
  \<^verbatim>\<open>
  def flag_angles(inst, flag):
      angle = inst['angles', '0 0 0']
      ...
      normal = DIRECTIONS.get(targ_angle.casefold(), None)
      if normal is None:
          return False
      inst_normal = from_dir.rotate_by_str(angle)
      if normal == 'WALL':
          return not (inst_normal == (0, 0, 1) or inst_normal == (0, 0, -1))
      else:
          return inst_normal == normal or (
              allow_inverse and -inst_normal == normal)
  \<close>
\<close>

definition flag_angles ::
  "(string \<Rightarrow> real option) \<Rightarrow> (real \<Rightarrow> nat \<Rightarrow> real) \<Rightarrow> (string \<rightharpoonup> direction) \<Rightarrow> Entity
     \<Rightarrow> Property \<Rightarrow> pyerror + bool" where
  "flag_angles pyfloat pyround DIRECTIONS inst flag =
     (let angle = key_default (ent_angles inst) ''0 0 0''
      in case flag_angles_options pyfloat DIRECTIONS flag of
           Inl e \<Rightarrow> Inl e
         | Inr (targ_angle, from_dir, allow_inverse) \<Rightarrow>
             (case DIRECTIONS (casefold targ_angle) of
                None \<Rightarrow> Inr False
              | Some normal \<Rightarrow>
                  (case rotate_by_str pyfloat pyround from_dir (Str angle) 0 0 0 True of
                     Inl e \<Rightarrow> Inl e
                   | Inr inst_normal \<Rightarrow>
                       (case normal of
                          WALL \<Rightarrow>
                            Inr (\<not> (vec_eq_tuple inst_normal (0, 0, 1)
                                     \<or> vec_eq_tuple inst_normal (0, 0, - 1)))
                        | DirVec n \<Rightarrow>
                            Inr (vec_eq inst_normal n
                                 \<or> (allow_inverse \<and> vec_eq (vec_neg inst_normal) n))))))"

text \<open>
  \<^verbatim>\<open>
  def flag_goo_at_loc(inst, flag):
      pos = Vec.from_str(flag.value).rotate_by_str(inst['angles', '0 0 0'])
      pos *= 128
      pos += Vec.from_str(inst['origin'])
      # Round to 128 units, then offset to the center
      pos = pos // 128 * 128 + 64
      val = pos.as_tuple() in GOO_LOCS
      return val
  \<close>
  \<open>goo_raw_pos\<close> is the position after the first three statements, \<open>goo_cell_key\<close> the tuple
  looked up. \<^verbatim>\<open>GOO_LOCS\<close> is imported from the \<^verbatim>\<open>conditions\<close> package and is a parameter.
\<close>

definition goo_raw_pos ::
  "(string \<Rightarrow> real option) \<Rightarrow> (real \<Rightarrow> nat \<Rightarrow> real) \<Rightarrow> Entity \<Rightarrow> string \<Rightarrow> pyerror + Vec" where
  "goo_raw_pos pyfloat pyround inst flag_value =
     (case from_str pyfloat (Str flag_value) 0 0 0 of
        Inl e \<Rightarrow> Inl e
      | Inr v \<Rightarrow>
          (case rotate_by_str pyfloat pyround v (Str (key_default (ent_angles inst) ''0 0 0'')) 0 0 0 True of
             Inl e \<Rightarrow> Inl e
           | Inr pos \<Rightarrow>
               (let pos1 = vec_mul pos 128
                in case from_str pyfloat (Str (ent_origin inst)) 0 0 0 of
                     Inl e \<Rightarrow> Inl e
                   | Inr org \<Rightarrow> Inr (vec_add pos1 org))))"

definition goo_cell_key ::
  "(string \<Rightarrow> real option) \<Rightarrow> (real \<Rightarrow> nat \<Rightarrow> real) \<Rightarrow> Entity \<Rightarrow> string
     \<Rightarrow> pyerror + (real \<times> real \<times> real)" where
  "goo_cell_key pyfloat pyround inst flag_value =
     (case goo_raw_pos pyfloat pyround inst flag_value of
        Inl e \<Rightarrow> Inl e
      | Inr pos \<Rightarrow> Inr (as_tuple (vec_add_scalar (vec_mul (vec_floordiv pos 128) 128) 64)))"

definition flag_goo_at_loc ::
  "(string \<Rightarrow> real option) \<Rightarrow> (real \<Rightarrow> nat \<Rightarrow> real) \<Rightarrow> (real \<times> real \<times> real) set \<Rightarrow> Entity
     \<Rightarrow> string \<Rightarrow> pyerror + bool" where
  "flag_goo_at_loc pyfloat pyround GOO_LOCS inst flag_value =
     (case goo_cell_key pyfloat pyround inst flag_value of
        Inl e \<Rightarrow> Inl e
      | Inr key \<Rightarrow> Inr (key \<in> GOO_LOCS))"

section \<open>utils.fit\<close>

text \<open>
  \<^verbatim>\<open>int(dist)\<close> truncates towards zero.
\<close>

definition py_int :: "real \<Rightarrow> int" where
  "py_int v = (if 0 \<le> v then \<lfloor>v\<rfloor> else \<lceil>v\<rceil>)"

text \<open>
  \<^verbatim>\<open>
  def append_bothsides(deq):
      while True:
          deq.append((yield))
          deq.appendleft((yield))
  \<close>
  The generator's state is the deque together with the side the next value goes to
  (\<open>True\<close>: \<^verbatim>\<open>append\<close>, at the right end); after \<^verbatim>\<open>next(adder)\<close> it waits at the first
  \<^verbatim>\<open>yield\<close>. \<open>adder_send\<close> is \<^verbatim>\<open>adder.send(v)\<close>.
\<close>

type_synonym adder = "int list \<times> bool"

definition append_bothsides :: "int list \<Rightarrow> adder" where
  "append_bothsides deq = (deq, True)"

definition adder_send :: "adder \<Rightarrow> int \<Rightarrow> adder" where
  "adder_send a v =
     (case a of (deq, right) \<Rightarrow> if right then (deq @ [v], False) else (v # deq, True))"

text \<open>
  \<^verbatim>\<open>
  while dist >= smallest:
      for item in obj:
          if item <= dist:
              adder.send(item)
              dist -= item
              break
  \<close>
  The \<^verbatim>\<open>for\<close> loop takes the first part that fits. When no part fits, the body changes
  nothing and the \<^verbatim>\<open>while\<close> loop runs again on the same state: it never ends, which is
  the value \<open>None\<close>.
\<close>

partial_function (option) fit_while :: "int \<Rightarrow> int list \<Rightarrow> int \<Rightarrow> adder \<Rightarrow> (int \<times> adder) option" where
  "fit_while smallest obj dst adder =
     (if smallest \<le> dst then
        (case find (\<lambda>item. item \<le> dst) obj of
           Some item \<Rightarrow> fit_while smallest obj (dst - item) (adder_send adder item)
         | None \<Rightarrow> fit_while smallest obj dst adder)
      else Some (dst, adder))"

text \<open>
  \<^verbatim>\<open>
  def fit(dist, obj):
      dist = int(dist)
      if dist <= 0:
          return []
      orig_dist = dist
      smallest = obj[-1]
      items = collections.deque()
      adder = append_bothsides(items)
      next(adder)
      while dist >= smallest: ...
      if dist > 0:
          adder.send(dist)
      assert sum(items) == orig_dist
      return list(items)
  \<close>
  \<^verbatim>\<open>obj[-1]\<close> raises \<^verbatim>\<open>IndexError\<close> on an empty sequence. The result is \<open>None\<close> when the
  loop does not end.
\<close>

definition fit :: "real \<Rightarrow> int list \<Rightarrow> (pyerror + int list) option" where
  "fit dist0 obj =
     (let dst = py_int dist0
      in if dst \<le> 0 then Some (Inr [])
         else
           let orig_dist = dst
           in if obj = [] then Some (Inl IndexError)
              else
                let smallest = last obj;
                    adder = append_bothsides []
                in case fit_while smallest obj dst adder of
                     None \<Rightarrow> None
                   | Some (dist1, adder1) \<Rightarrow>
                       let adder2 = (if 0 < dist1 then adder_send adder1 dist1 else adder1);
                           items = fst adder2
                       in if sum_list items = orig_dist then Some (Inr items)
                          else Some (Inl AssertionError))"

section \<open>utils.AtomicWriter\<close>

text \<open>
  The file system, as far as the writer is concerned: the regular files, by path, with
  their content. Directories are not tracked; \<^verbatim>\<open>os.makedirs\<close> changes no regular file.
\<close>

type_synonym path = string

type_synonym filesystem = "path \<rightharpoonup> string"

text \<open>
  \<^verbatim>\<open>
  def __init__(self, filename, is_bytes=False):
      self.filename = filename
      self.dir = os.path.dirname(filename)
      self.is_bytes = is_bytes
      self.temp = None
  \<close>
  \<open>aw_temp\<close> is the open temporary file, by its name. \<^verbatim>\<open>self.dir\<close> is used only to say
  where the directory and the temporary file are created, which is left to the environment
  (see \<open>make_tempfile\<close>).
\<close>

record AtomicWriter =
  aw_filename :: path
  aw_is_bytes :: bool
  aw_temp :: "path option"

definition AtomicWriter_init :: "path \<Rightarrow> bool \<Rightarrow> AtomicWriter" where
  "AtomicWriter_init filename is_bytes =
     \<lparr>aw_filename = filename, aw_is_bytes = is_bytes, aw_temp = None\<rparr>"

text \<open>
  \<^verbatim>\<open>os.remove(p)\<close> raises \<^verbatim>\<open>FileNotFoundError\<close> when there is no file at \<open>p\<close>.
\<close>

definition os_remove :: "filesystem \<Rightarrow> path \<Rightarrow> pyerror + filesystem" where
  "os_remove fs p = (case fs p of None \<Rightarrow> Inl FileNotFoundError | Some c \<Rightarrow> Inr (fs(p := None)))"

text \<open>
  \<^verbatim>\<open>os.replace(src, dst)\<close> moves the file at \<open>src\<close> over \<open>dst\<close>, and raises
  \<^verbatim>\<open>FileNotFoundError\<close> when there is no file at \<open>src\<close>.
\<close>

definition os_replace :: "filesystem \<Rightarrow> path \<Rightarrow> path \<Rightarrow> pyerror + filesystem" where
  "os_replace fs src dst =
     (case fs src of
        None \<Rightarrow> Inl FileNotFoundError
      | Some c \<Rightarrow> Inr ((fs(src := None))(dst \<mapsto> c)))"

text \<open>
  \<^verbatim>\<open>
  def make_tempfile(self):
      if self.temp is not None:
          self.temp.close()
          os.remove(self.temp.name)
      os.makedirs(self.dir, exist_ok=True)
      self.temp = tempfile.NamedTemporaryFile(
          mode='wb' if self.is_bytes else 'wt', dir=self.dir, delete=False)
  \<close>
  What the environment does in \<^verbatim>\<open>os.makedirs\<close> and \<^verbatim>\<open>NamedTemporaryFile\<close> is the
  parameter \<open>created\<close>: the error one of them raises, or the name of the new, empty file.
  The result is the exception raised, if any, with the writer and the file system afterwards.
\<close>

definition make_tempfile ::
  "AtomicWriter \<Rightarrow> filesystem \<Rightarrow> pyerror + path \<Rightarrow> pyerror option \<times> AtomicWriter \<times> filesystem" where
  "make_tempfile self fs created =
     (case (case aw_temp self of None \<Rightarrow> Inr fs | Some old \<Rightarrow> os_remove fs old) of
        Inl e \<Rightarrow> (Some e, self, fs)
      | Inr fs1 \<Rightarrow>
          (case created of
             Inl e \<Rightarrow> (Some e, self, fs1)
           | Inr name \<Rightarrow> (None, self\<lparr>aw_temp := Some name\<rparr>, fs1(name \<mapsto> []))))"

text \<open>
  \<^verbatim>\<open>__enter__\<close>: \<^verbatim>\<open>self.make_tempfile(); return self.temp.__enter__()\<close>. The handle
  returned is the temporary file, named by \<open>aw_temp\<close>.
\<close>

definition aw_enter ::
  "AtomicWriter \<Rightarrow> filesystem \<Rightarrow> pyerror + path \<Rightarrow> pyerror option \<times> AtomicWriter \<times> filesystem" where
  "aw_enter self fs created = make_tempfile self fs created"

text \<open>
  \<^verbatim>\<open>
  def __exit__(self, exc_type, exc_value, tback):
      temp_path = self.temp.name
      self.temp.__exit__(exc_type, exc_value, tback)
      self.temp = None
      if exc_type is not None:
          try:
              os.remove(temp_path)
          except FileNotFoundError:
              pass
      else:
          os.replace(temp_path, self.filename)
      return False  # Don't cancel the exception.
  \<close>
  The result is the value returned (or the exception raised by \<^verbatim>\<open>__exit__\<close> itself), the
  writer and the file system.
\<close>

definition aw_exit ::
  "AtomicWriter \<Rightarrow> filesystem \<Rightarrow> pyerror option \<Rightarrow> (pyerror + bool) \<times> AtomicWriter \<times> filesystem" where
  "aw_exit self fs exc =
     (case aw_temp self of
        None \<Rightarrow> (Inl AttributeError, self, fs)
      | Some temp_path \<Rightarrow>
          (let self1 = self\<lparr>aw_temp := None\<rparr>
           in case exc of
                Some e \<Rightarrow>
                  (case os_remove fs temp_path of
                     Inl FileNotFoundError \<Rightarrow> (Inr False, self1, fs)
                   | Inl e1 \<Rightarrow> (Inl e1, self1, fs)
                   | Inr fs1 \<Rightarrow> (Inr False, self1, fs1))
              | None \<Rightarrow>
                  (case os_replace fs temp_path (aw_filename self) of
                     Inl e1 \<Rightarrow> (Inl e1, self1, fs)
                   | Inr fs1 \<Rightarrow> (Inr False, self1, fs1))))"

text \<open>
  The body of the \<^verbatim>\<open>with\<close> block: a sequence of writes to the handle, between which
  something may delete the temporary file behind the writer's back, ended either normally
  or by an exception. A write appends to the file the handle names; once that file has been
  deleted the data written has no name in the file system.
\<close>

datatype body_op = Write string | DeleteTemp

fun run_body :: "filesystem \<Rightarrow> path \<Rightarrow> body_op list \<Rightarrow> filesystem" where
  "run_body fs tmp [] = fs"
| "run_body fs tmp (Write data # ops) =
     run_body (case fs tmp of None \<Rightarrow> fs | Some c \<Rightarrow> fs(tmp \<mapsto> c @ data)) tmp ops"
| "run_body fs tmp (DeleteTemp # ops) = run_body (fs(tmp := None)) tmp ops"

fun written :: "body_op list \<Rightarrow> string" where
  "written [] = []"
| "written (Write data # ops) = data @ written ops"
| "written (DeleteTemp # ops) = written ops"

text \<open>
  \<^verbatim>\<open>with AtomicWriter(...) as f: body\<close>, by the semantics of the \<^verbatim>\<open>with\<close> statement:
  an exception of \<^verbatim>\<open>__enter__\<close> propagates and the body is not run; otherwise the body runs
  and \<^verbatim>\<open>__exit__\<close> is called with its exception, if any; an exception of \<^verbatim>\<open>__exit__\<close>
  propagates, and the body's exception propagates unless \<^verbatim>\<open>__exit__\<close> returned true.
  \<open>raised\<close> is the exception that ends the body. The result is the exception that leaves
  the statement, the writer and the file system.
\<close>

definition with_AtomicWriter ::
  "AtomicWriter \<Rightarrow> filesystem \<Rightarrow> pyerror + path \<Rightarrow> body_op list \<Rightarrow> pyerror option
     \<Rightarrow> pyerror option \<times> AtomicWriter \<times> filesystem" where
  "with_AtomicWriter self fs created ops raised =
     (case aw_enter self fs created of
        (Some e, self1, fs1) \<Rightarrow> (Some e, self1, fs1)
      | (None, self1, fs1) \<Rightarrow>
          (case aw_temp self1 of
             None \<Rightarrow> (Some AttributeError, self1, fs1)
           | Some handle \<Rightarrow>
               (let fs2 = run_body fs1 handle ops
                in case aw_exit self1 fs2 raised of
                     (Inl e, self2, fs3) \<Rightarrow> (Some e, self2, fs3)
                   | (Inr suppress, self2, fs3) \<Rightarrow>
                       (if suppress then None else raised, self2, fs3))))"

section \<open>conditions.resizableTrigger\<close>

text \<open>
  An output of a marker, with the fields the remapping loop reads, and an output
  constructed for the trigger, with the arguments the loop passes to \<^verbatim>\<open>VLib.Output\<close>:
  \<^verbatim>\<open>Output(trig_out, out.target, inst_in=out.inst_in, inp=out.input, param=out.params,
  delay=out.delay, times=out.times)\<close>.
\<close>

datatype Output = Output
  (out_output: string) (out_target: string) (out_inst_out: "string option")
  (out_inst_in: "string option") (out_input: string) (out_params: string)
  (out_delay: real) (out_times: int)

datatype new_output = NewOutput
  (new_output: string) (new_target: string) (new_inst_in: "string option")
  (new_inp: string) (new_param: string) (new_delay: real) (new_times: int)

text \<open>
  The values the loop takes from its surroundings: \<^verbatim>\<open>trig_act\<close> and \<^verbatim>\<open>trig_deact\<close> (the
  configured trigger outputs), the pairs \<^verbatim>\<open>marker_connection.out_act\<close> and
  \<^verbatim>\<open>out_deact\<close> (instance name and output name of the marker's activate and deactivate pins;
  the table \<^verbatim>\<open>conditions.CONNECTIONS\<close> they are read from is not part of the sources), and
  \<^verbatim>\<open>other['targetname']\<close>.
\<close>

record trigger_config =
  trig_act :: string
  trig_deact :: string
  mark_act_name :: "string option"
  mark_act_out :: string
  mark_deact_name :: "string option"
  mark_deact_out :: string
  other_targetname :: string

text \<open>
  \<^verbatim>\<open>
  for out in inst.outputs + other.outputs:
      if out.target == other['targetname']:
          continue
      if out.inst_out == mark_act_name and out.output == mark_act_out:
          trig_out = trig_act
      elif out.inst_out == mark_deact_name and out.output == mark_deact_out:
          trig_out = trig_deact
      else:
          continue
      if trig_out == "":
          continue
      trig_ent.outputs.append(VLib.Output(trig_out, out.target, ...))
  \<close>
  \<open>copy_output\<close> is one round of the loop on the list \<^verbatim>\<open>trig_ent.outputs\<close>.
\<close>

definition copy_output :: "trigger_config \<Rightarrow> Output \<Rightarrow> new_output list \<Rightarrow> new_output list" where
  "copy_output cfg out outputs =
     (if out_target out = other_targetname cfg then outputs
      else
        (case (if out_inst_out out = mark_act_name cfg \<and> out_output out = mark_act_out cfg
               then Some (trig_act cfg)
               else if out_inst_out out = mark_deact_name cfg \<and> out_output out = mark_deact_out cfg
               then Some (trig_deact cfg)
               else None) of
           None \<Rightarrow> outputs
         | Some trig_out \<Rightarrow>
             if trig_out = [] then outputs
             else outputs @
               [NewOutput trig_out (out_target out) (out_inst_in out) (out_input out)
                  (out_params out) (out_delay out) (out_times out)]))"

fun copy_outputs_loop :: "trigger_config \<Rightarrow> Output list \<Rightarrow> new_output list \<Rightarrow> new_output list" where
  "copy_outputs_loop cfg [] outputs = outputs"
| "copy_outputs_loop cfg (out # rest) outputs =
     copy_outputs_loop cfg rest (copy_output cfg out outputs)"

definition copy_marker_outputs ::
  "trigger_config \<Rightarrow> Output list \<Rightarrow> Output list \<Rightarrow> new_output list \<Rightarrow> new_output list" where
  "copy_marker_outputs cfg inst_outputs other_outputs outputs =
     copy_outputs_loop cfg (inst_outputs @ other_outputs) outputs"

text \<open>
  The rule of the specification, output by output: what, if anything, the trigger receives
  for one marker output. It is compared with the loop below.
\<close>

definition matches_act :: "trigger_config \<Rightarrow> Output \<Rightarrow> bool" where
  "matches_act cfg out \<longleftrightarrow>
     out_inst_out out = mark_act_name cfg \<and> out_output out = mark_act_out cfg"

definition matches_deact :: "trigger_config \<Rightarrow> Output \<Rightarrow> bool" where
  "matches_deact cfg out \<longleftrightarrow>
     out_inst_out out = mark_deact_name cfg \<and> out_output out = mark_deact_out cfg"

definition emitted_as :: "string \<Rightarrow> Output \<Rightarrow> new_output" where
  "emitted_as name out =
     NewOutput name (out_target out) (out_inst_in out) (out_input out)
       (out_params out) (out_delay out) (out_times out)"

definition spec_remap :: "trigger_config \<Rightarrow> Output \<Rightarrow> new_output list" where
  "spec_remap cfg out =
     (if out_target out = other_targetname cfg then []
      else if matches_act cfg out then (if trig_act cfg = [] then [] else [emitted_as (trig_act cfg) out])
      else if matches_deact cfg out then (if trig_deact cfg = [] then [] else [emitted_as (trig_deact cfg) out])
      else [])"

section \<open>voiceLine: the module-level values\<close>

text \<open>
  The map document, as far as the voice pass adds to it: an entity, by class name and
  target name (its other keyvalues and its outputs are not tracked), or the hollow box of
  brushes around the voice-line location.
\<close>

datatype map_item = Ent string string | HollowBox

type_synonym vmf = "map_item list"

text \<open>
  The module-level names of \<^verbatim>\<open>voiceLine.py\<close> that a pass reads and writes:
  \<^verbatim>\<open>
  map_attr = {}
  style_vars = {}
  ADDED_BULLSEYES = set()
  QUOTE_EVENTS = {}  # id -> instance mapping
  ALLOW_MID_VOICES = False
  VMF = None
  \<close>
  A dict whose order matters (\<^verbatim>\<open>QUOTE_EVENTS\<close>) is a list of pairs with distinct keys, in
  insertion order.
\<close>

record voice_module =
  map_attr :: "string \<rightharpoonup> bool"
  style_vars :: "string \<rightharpoonup> bool"
  ADDED_BULLSEYES :: "string set"
  QUOTE_EVENTS :: "(string \<times> string) list"
  ALLOW_MID_VOICES :: bool
  VMF :: "vmf option"

definition voice_module_init :: voice_module where
  "voice_module_init =
     \<lparr>map_attr = Map.empty, style_vars = Map.empty, ADDED_BULLSEYES = {},
      QUOTE_EVENTS = [], ALLOW_MID_VOICES = False, VMF = None\<rparr>"

text \<open>\<^verbatim>\<open>d[k] = v\<close> on an ordered dict: an existing key keeps its place.\<close>

fun dict_set :: "string \<Rightarrow> string \<Rightarrow> (string \<times> string) list \<Rightarrow> (string \<times> string) list" where
  "dict_set k v [] = [(k, v)]"
| "dict_set k v (p # ps) = (if fst p = k then (k, v) # ps else p # dict_set k v ps)"

definition INST_PREFIX :: string where
  "INST_PREFIX = ''instances/BEE2/voice/''"

text \<open>\<^verbatim>\<open>str(n)\<close> of a natural number, and \<^verbatim>\<open>s.lstrip('@')\<close>.\<close>

definition digit_char :: "nat \<Rightarrow> char" where
  "digit_char d = ''0123456789'' ! d"

function nat_str :: "nat \<Rightarrow> string" where
  "nat_str n = (if n < 10 then [digit_char n] else nat_str (n div 10) @ [digit_char (n mod 10)])"
  by pat_completeness auto
termination
  by (relation "measure id") auto

declare nat_str.simps [simp del]

definition lstrip_at :: "string \<Rightarrow> string" where
  "lstrip_at s = dropWhile (\<lambda>c. c = CHR ''@'') s"

text \<open>
  One step after another, the first exception ending the sequence.
\<close>

definition and_then :: "pyerror + 'a \<Rightarrow> ('a \<Rightarrow> pyerror + 'b) \<Rightarrow> pyerror + 'b" where
  "and_then r f = (case r of Inl e \<Rightarrow> Inl e | Inr a \<Rightarrow> f a)"

text \<open>
  \<^verbatim>\<open>VMF.create_ent(classname=..., targetname=..., ...)\<close> and
  \<^verbatim>\<open>VMF.add_brushes(VMF.make_hollow(...))\<close> on the module's current document; while
  \<^verbatim>\<open>VMF\<close> is still \<^verbatim>\<open>None\<close> the attribute lookup raises \<^verbatim>\<open>AttributeError\<close>.
\<close>

definition add_item :: "voice_module \<Rightarrow> map_item \<Rightarrow> pyerror + voice_module" where
  "add_item m item =
     (case VMF m of
        None \<Rightarrow> Inl AttributeError
      | Some items \<Rightarrow> Inr (m\<lparr>VMF := Some (items @ [item])\<rparr>))"

definition create_ent :: "voice_module \<Rightarrow> string \<Rightarrow> string \<Rightarrow> pyerror + voice_module" where
  "create_ent m classname targetname = add_item m (Ent classname targetname)"

text \<open>
  \<^verbatim>\<open>
  @conditions.make_result('QuoteEvent')
  def res_quote_event(inst, res):
      QUOTE_EVENTS[res['id'].casefold()] = res['file']
      return conditions.RES_EXHAUSTED
  \<close>
  The arguments are the values of \<^verbatim>\<open>res['id']\<close> and \<^verbatim>\<open>res['file']\<close>.
\<close>

definition res_quote_event :: "voice_module \<Rightarrow> string \<Rightarrow> string \<Rightarrow> voice_module" where
  "res_quote_event m res_id res_file =
     m\<lparr>QUOTE_EVENTS := dict_set (casefold res_id) res_file (QUOTE_EVENTS m)\<rparr>"

text \<open>
  \<^verbatim>\<open>add_choreo\<close> creates one \<^verbatim>\<open>logic_choreographed_scene\<close> under the given name; its
  other arguments only set keyvalues and outputs of that entity.
\<close>

definition add_choreo :: "voice_module \<Rightarrow> string \<Rightarrow> pyerror + voice_module" where
  "add_choreo m targetname = create_ent m ''logic_choreographed_scene'' targetname"

text \<open>
  The properties of a quote line, by what \<^verbatim>\<open>add_quote\<close> does with them:
  \<^verbatim>\<open>file\<close>, \<^verbatim>\<open>choreo\<close> without and with children (the children's scene files),
  \<^verbatim>\<open>snd\<close>, \<^verbatim>\<open>bullseye\<close>, \<^verbatim>\<open>setstylevar\<close> and \<^verbatim>\<open>choreo_name\<close>. \<open>OtherProp\<close> stands for
  \<^verbatim>\<open>cc_emit\<close>, \<^verbatim>\<open>onlyonce\<close> and \<^verbatim>\<open>endcommand\<close>, which only change the outputs of the
  entities, for \<^verbatim>\<open>packlist\<close> and \<^verbatim>\<open>pack\<close>, which fill sets of the \<^verbatim>\<open>vbsp\<close> module, and for
  any other name, which is ignored.
  \<^verbatim>\<open>
  for prop in quote:
      name = prop.name.casefold()
      if name == 'file':
          added_ents.append(VMF.create_ent(classname='func_instance', targetname='', ...))
      elif name == 'choreo':
          if prop.has_children():
              secondary_name = targetname.lstrip('@') + '_'
              for ind, choreo_line in enumerate(prop, start=1):
                  is_first = (ind == 1)
                  name = (targetname if is_first else secondary_name + str(ind))
                  choreo = add_choreo(choreo_line.value, targetname=name, ...)
          else:
              choreo = add_choreo(prop.value, targetname, quote_loc, ...)
      elif name == 'snd':
          snd = VMF.create_ent(classname='ambient_generic', targetname=targetname, ...)
      elif name == 'bullseye':
          # Don't add the same one more than once.
          if prop.value not in ADDED_BULLSEYES:
              VMF.create_ent(classname='npc_bullseye', targetname=prop.value, ...)
              ADDED_BULLSEYES.add(prop.value)
      elif name == 'setstylevar':
          style_vars[prop.value.casefold()] = True
      elif name == 'choreo_name':
          targetname = prop.value
  \<close>
  The loop's state is the module and the local \<^verbatim>\<open>targetname\<close>.
\<close>

datatype quote_prop =
    File string
  | Choreo string
  | ChoreoLines "string list"
  | Snd string
  | Bullseye string
  | SetStyleVar string
  | ChoreoName string
  | OtherProp

fun add_choreo_lines :: "voice_module \<Rightarrow> string \<Rightarrow> nat \<Rightarrow> string list \<Rightarrow> pyerror + voice_module" where
  "add_choreo_lines m targetname ind [] = Inr m"
| "add_choreo_lines m targetname ind (choreo_line # rest) =
     and_then
       (add_choreo m (if ind = 1 then targetname else (lstrip_at targetname @ ''_'') @ nat_str ind))
       (\<lambda>m1. add_choreo_lines m1 targetname (Suc ind) rest)"

fun add_quote_prop ::
  "voice_module \<times> string \<Rightarrow> quote_prop \<Rightarrow> pyerror + (voice_module \<times> string)" where
  "add_quote_prop (m, targetname) (File v) =
     and_then (create_ent m ''func_instance'' []) (\<lambda>m1. Inr (m1, targetname))"
| "add_quote_prop (m, targetname) (Choreo v) =
     and_then (add_choreo m targetname) (\<lambda>m1. Inr (m1, targetname))"
| "add_quote_prop (m, targetname) (ChoreoLines vs) =
     and_then (add_choreo_lines m targetname 1 vs) (\<lambda>m1. Inr (m1, targetname))"
| "add_quote_prop (m, targetname) (Snd v) =
     and_then (create_ent m ''ambient_generic'' targetname) (\<lambda>m1. Inr (m1, targetname))"
| "add_quote_prop (m, targetname) (Bullseye v) =
     (if v \<notin> ADDED_BULLSEYES m then
        and_then (create_ent m ''npc_bullseye'' v)
          (\<lambda>m1. Inr (m1\<lparr>ADDED_BULLSEYES := insert v (ADDED_BULLSEYES m1)\<rparr>, targetname))
      else Inr (m, targetname))"
| "add_quote_prop (m, targetname) (SetStyleVar v) =
     Inr (m\<lparr>style_vars := (style_vars m)(casefold v \<mapsto> True)\<rparr>, targetname)"
| "add_quote_prop (m, targetname) (ChoreoName v) = Inr (m, v)"
| "add_quote_prop (m, targetname) OtherProp = Inr (m, targetname)"

fun add_quote_loop ::
  "voice_module \<times> string \<Rightarrow> quote_prop list \<Rightarrow> pyerror + (voice_module \<times> string)" where
  "add_quote_loop st [] = Inr st"
| "add_quote_loop st (prop # props) =
     and_then (add_quote_prop st prop) (\<lambda>st1. add_quote_loop st1 props)"

text \<open>
  \<^verbatim>\<open>add_quote(quote, targetname, quote_loc, use_dings)\<close>; the location and the ding
  switch only set keyvalues and outputs.
\<close>

definition add_quote :: "voice_module \<Rightarrow> quote_prop list \<Rightarrow> string \<Rightarrow> pyerror + voice_module" where
  "add_quote m quote targetname =
     and_then (add_quote_loop (m, targetname) quote) (\<lambda>st. Inr (fst st))"

text \<open>
  The start of a pass:
  \<^verbatim>\<open>
  def add_voice(has_items, style_vars_, vmf_file, map_seed, use_priority=True):
      global ALLOW_MID_VOICES, VMF, map_attr, style_vars
      VMF = vmf_file
      map_attr = has_items
      style_vars = style_vars_
  \<close>
  These three assignments, and the one to \<^verbatim>\<open>ALLOW_MID_VOICES\<close> below, are the only
  assignments to module-level names in the function; the module has no statement that
  empties \<^verbatim>\<open>ADDED_BULLSEYES\<close> or \<^verbatim>\<open>QUOTE_EVENTS\<close>.
\<close>

definition add_voice_begin ::
  "voice_module \<Rightarrow> (string \<rightharpoonup> bool) \<Rightarrow> (string \<rightharpoonup> bool) \<Rightarrow> vmf \<Rightarrow> voice_module" where
  "add_voice_begin m has_items new_style_vars vmf_file =
     m\<lparr>VMF := Some vmf_file, map_attr := has_items, style_vars := new_style_vars\<rparr>"

text \<open>
  \<^verbatim>\<open>
  for event in QUOTE_DATA.find_all('QuoteEvents', 'Event'):
      event_id = event['id', ''].casefold()
      # We ignore the config if no result was executed.
      if event_id and event_id in QUOTE_EVENTS:
          QUOTE_EVENTS[event_id] = INST_PREFIX + event['file']
  \<close>
  The events of the configuration are given as pairs of \<^verbatim>\<open>id\<close> and \<^verbatim>\<open>file\<close>.
\<close>

fun quote_events_loop :: "(string \<times> string) list \<Rightarrow> (string \<times> string) list \<Rightarrow> (string \<times> string) list" where
  "quote_events_loop [] qe = qe"
| "quote_events_loop ((ev_id, ev_file) # events) qe =
     (let event_id = casefold ev_id
      in quote_events_loop events
           (if event_id \<noteq> [] \<and> event_id \<in> fst ` set qe
            then dict_set event_id (INST_PREFIX @ ev_file) qe else qe))"

text \<open>
  \<^verbatim>\<open>
  for ind, file in enumerate(QUOTE_EVENTS.values()):
      VMF.create_ent(classname='func_instance', targetname='voice_event_' + str(ind), ...)
  \<close>
\<close>

fun add_event_instances :: "voice_module \<Rightarrow> nat \<Rightarrow> string list \<Rightarrow> pyerror + voice_module" where
  "add_event_instances m ind [] = Inr m"
| "add_event_instances m ind (file # files) =
     and_then (create_ent m ''func_instance'' (''voice_event_'' @ nat_str ind))
       (\<lambda>m1. add_event_instances m1 (Suc ind) files)"

text \<open>
  What the pass reads of the configuration block \<^verbatim>\<open>QUOTE_DATA\<close>: the keys \<^verbatim>\<open>base\<close>,
  \<^verbatim>\<open>use_dings\<close> and \<^verbatim>\<open>UseMicrophones\<close> (\<open>None\<close> when absent) and the configured events.
\<close>

record quote_data =
  qd_base :: "string option"
  qd_use_dings :: "string option"
  qd_events :: "(string \<times> string) list"
  qd_use_microphones :: "string option"

text \<open>
  The groups of quotes. For each group the pass collects the applicable quotes
  (\<^verbatim>\<open>find_group_quotes\<close>, which tests the quotes' flags against the module's values and the
  user's configuration, and puts mid-chamber lines aside when \<^verbatim>\<open>ALLOW_MID_VOICES\<close> is set),
  sorts them by priority and picks one line, by priority or at random. A group is modelled
  by the outcome of all that as a function of the module's values at that moment: the line
  picked, if any, with the name it is added under, and the mid-chamber lines put aside.
  \<^verbatim>\<open>
  for group in itertools.chain(QUOTE_DATA.find_all('group'), QUOTE_DATA.find_all('midchamber')):
      quote_targetname = group['Choreo_Name', '@choreo']
      possible_quotes = sorted(find_group_quotes(group, mid_quotes, ...), ...)
      if possible_quotes:
          ...
          add_quote(random.choice(chosen), quote_targetname, choreo_loc, use_dings)
  \<close>
\<close>

type_synonym quote_call = "quote_prop list \<times> string"

type_synonym quote_group = "voice_module \<Rightarrow> quote_call option \<times> quote_call list"

text \<open>A group whose outcome does not depend on the module's values.\<close>

definition fixed_group :: "quote_call option \<Rightarrow> quote_call list \<Rightarrow> quote_group" where
  "fixed_group chosen mid m = (chosen, mid)"

fun add_group_quotes ::
  "voice_module \<Rightarrow> quote_call list \<Rightarrow> quote_group list \<Rightarrow> pyerror + (voice_module \<times> quote_call list)" where
  "add_group_quotes m mid_quotes [] = Inr (m, mid_quotes)"
| "add_group_quotes m mid_quotes (grp # grps) =
     (case grp m of
        (chosen, new_mid) \<Rightarrow>
          and_then
            (case chosen of None \<Rightarrow> Inr m | Some (quote, targetname) \<Rightarrow> add_quote m quote targetname)
            (\<lambda>m1. add_group_quotes m1 (mid_quotes @ new_mid) grps))"

text \<open>
  \<^verbatim>\<open>
  if ADDED_BULLSEYES or utils.conv_bool(QUOTE_DATA['UseMicrophones', '']):
      if vbsp.GAME_MODE == 'SP':
          VMF.create_ent(classname='env_microphone', targetname='player_speaker_sp', ...)
      else:
          VMF.create_ent(classname='env_microphone', targetname='player_speaker_blue', ...)
          VMF.create_ent(classname='env_microphone', targetname='player_speaker_orange', ...)
  \<close>
\<close>

definition add_microphones :: "voice_module \<Rightarrow> string option \<Rightarrow> string \<Rightarrow> pyerror + voice_module" where
  "add_microphones m use_microphones GAME_MODE =
     and_then
       (if ADDED_BULLSEYES m \<noteq> {} then Inr True
        else conv_bool (PyStr (key_default use_microphones [])) False)
       (\<lambda>wanted.
          if wanted then
            (if GAME_MODE = ''SP'' then create_ent m ''env_microphone'' ''player_speaker_sp''
             else
               and_then (create_ent m ''env_microphone'' ''player_speaker_blue'')
                 (\<lambda>m1. create_ent m1 ''env_microphone'' ''player_speaker_orange''))
          else Inr m)"

text \<open>
  \<^verbatim>\<open>for mid_item, use_ding, mid_name in mid_quotes: add_quote(mid_item, mid_name, ...)\<close>
\<close>

fun add_mid_quotes :: "voice_module \<Rightarrow> quote_call list \<Rightarrow> pyerror + voice_module" where
  "add_mid_quotes m [] = Inr m"
| "add_mid_quotes m ((mid_item, mid_name) # rest) =
     and_then (add_quote m mid_item mid_name) (\<lambda>m1. add_mid_quotes m1 rest)"

text \<open>
  A pass of \<^verbatim>\<open>add_voice\<close>, in the order of the source: the three assignments; the base
  instance \<^verbatim>\<open>voice\<close> when \<^verbatim>\<open>QUOTE_DATA['base', False]\<close> is true; the hollow box;
  \<^verbatim>\<open>ALLOW_MID_VOICES = not style_vars.get('nomidvoices', False)\<close>; the two ding scenes when
  \<^verbatim>\<open>use_dings\<close> is true; the loop over the configured quote events; one instance for each
  registered quote event; the groups; the microphones; the mid-chamber quotes. The response
  script, which the pass writes or removes between the quote events and their instances, is
  a file outside the map document and the module's values, and is left out.
\<close>

definition add_voice ::
  "voice_module \<Rightarrow> (string \<rightharpoonup> bool) \<Rightarrow> (string \<rightharpoonup> bool) \<Rightarrow> vmf \<Rightarrow> quote_data \<Rightarrow> string
     \<Rightarrow> quote_group list \<Rightarrow> pyerror + voice_module" where
  "add_voice m has_items new_style_vars vmf_file QUOTE_DATA GAME_MODE grps =
     (let m1 = add_voice_begin m has_items new_style_vars vmf_file
      in and_then
           (case qd_base QUOTE_DATA of
              None \<Rightarrow> Inr m1
            | Some quote_base \<Rightarrow>
                if quote_base \<noteq> [] then create_ent m1 ''func_instance'' ''voice'' else Inr m1)
        (\<lambda>m2. and_then (add_item m2 HollowBox)
        (\<lambda>m3. let m4 = m3\<lparr>ALLOW_MID_VOICES :=
                          \<not> (case style_vars m3 ''nomidvoices'' of None \<Rightarrow> False | Some b \<Rightarrow> b)\<rparr>
              in and_then (conv_bool (PyStr (key_default (qd_use_dings QUOTE_DATA) ''0'')) False)
        (\<lambda>allow_dings. and_then
           (if allow_dings then
              and_then (create_ent m4 ''logic_choreographed_scene'' ''@ding_on'')
                (\<lambda>m5. create_ent m5 ''logic_choreographed_scene'' ''@ding_off'')
            else Inr m4)
        (\<lambda>m6. let m7 = m6\<lparr>QUOTE_EVENTS :=
                          quote_events_loop (qd_events QUOTE_DATA) (QUOTE_EVENTS m6)\<rparr>
              in and_then (add_event_instances m7 0 (map snd (QUOTE_EVENTS m7)))
        (\<lambda>m8. and_then (add_group_quotes m8 [] grps)
        (\<lambda>(m9, mid_quotes). and_then
           (add_microphones m9 (qd_use_microphones QUOTE_DATA) GAME_MODE)
        (\<lambda>m10. add_mid_quotes m10 mid_quotes))))))))"

text \<open>
  What holds between the module before and after any step of a pass other than the
  assignments named above: the registry of quote events, the item map and the mid-voice
  switch are as before, no bullseye name is forgotten, and the document, if there is one,
  has only grown, by no bullseye entity whose name was recorded already.
\<close>

definition pass_keeps :: "voice_module \<Rightarrow> voice_module \<Rightarrow> bool" where
  "pass_keeps m m1 \<longleftrightarrow>
     QUOTE_EVENTS m1 = QUOTE_EVENTS m
     \<and> map_attr m1 = map_attr m
     \<and> ALLOW_MID_VOICES m1 = ALLOW_MID_VOICES m
     \<and> ADDED_BULLSEYES m \<subseteq> ADDED_BULLSEYES m1
     \<and> (case VMF m of
          None \<Rightarrow> VMF m1 = None
        | Some old \<Rightarrow>
            (\<exists>new. VMF m1 = Some (old @ new)
               \<and> (\<forall>b\<in>ADDED_BULLSEYES m. Ent ''npc_bullseye'' b \<notin> set new)))"

section \<open>Properties\<close>

section \<open>Properties of parse_str\<close>

text \<open>
  C2: the claim is that \<open>parse_str\<close> returns the defaults on every malformed text. On a text
  of three tokens whose first or last token is empty the code indexes the empty token and
  raises \<open>IndexError\<close> instead, whatever \<open>float\<close> does and whatever the defaults are.
\<close>

theorem parse_str_empty_token_raises:
  "parse_str pyfloat (Str '' 1 2'') x y z = Inl IndexError
   \<and> parse_str pyfloat (Str ''1 2 '') x y z = Inl IndexError"
  by (simp add: parse_str_def py_split_def)


section \<open>Properties of the positioning flags\<close>

lemmas float_reading =
  decimal_float_def strip_blanks_def is_blank_def unsigned_float_def is_exp_mark_def
  signed_digits_def unsigned_decimal_def digit_val_def

lemma decimal_float_zero: "decimal_float ''0'' = Some 0"
  by (simp add: float_reading)

lemma decimal_float_one: "decimal_float ''1'' = Some 1"
  by (simp add: float_reading)

lemma decimal_float_minus_one: "decimal_float ''-1'' = Some (- 1)"
  by (simp add: float_reading)

lemma decimal_float_0_6: "decimal_float ''0.6'' = Some (3 / 5)"
  by (simp add: float_reading)

lemma decimal_float_1_6: "decimal_float ''1.6'' = Some (8 / 5)"
  by (simp add: float_reading)

lemma decimal_float_90: "decimal_float ''90'' = Some 90"
  by (simp add: float_reading)

lemma decimal_float_minus_90: "decimal_float ''-90'' = Some (- 90)"
  by (simp add: float_reading)

lemma parse_str_zero: "parse_str decimal_float (Str ''0 0 0'') x y z = Inr (0, 0, 0)"
  by (simp add: parse_str_def py_split_def decimal_float_zero)

lemma parse_str_x_axis: "parse_str decimal_float (Str ''1 0 0'') x y z = Inr (1, 0, 0)"
  by (simp add: parse_str_def py_split_def decimal_float_zero decimal_float_one)

lemma parse_str_pitch_up: "parse_str decimal_float (Str ''-90 0 0'') x y z = Inr (- 90, 0, 0)"
  by (simp add: parse_str_def py_split_def decimal_float_zero decimal_float_minus_90)

lemma parse_str_pitch_down: "parse_str decimal_float (Str ''90 0 0'') x y z = Inr (90, 0, 0)"
  by (simp add: parse_str_def py_split_def decimal_float_zero decimal_float_90)

lemma parse_str_yaw: "parse_str decimal_float (Str ''0 90 0'') x y z = Inr (0, 90, 0)"
  by (simp add: parse_str_def py_split_def decimal_float_zero decimal_float_90)

lemma parse_str_0_6: "parse_str decimal_float (Str ''0.6 0 0'') x y z = Inr (3 / 5, 0, 0)"
  by (simp add: parse_str_def py_split_def decimal_float_zero decimal_float_0_6)

lemma parse_str_1_6: "parse_str decimal_float (Str ''1.6 0 -1'') x y z = Inr (8 / 5, 0, - 1)"
  by (simp add: parse_str_def py_split_def decimal_float_zero decimal_float_1_6
      decimal_float_minus_one)

lemma rotate_zero_angles:
  "rotate pyround (Vec a b c) 0 0 0 True = Vec (pyround a 3) (pyround b 3) (pyround c 3)"
  by (simp add: rotate_def radians_def)

lemma py_round_examples:
  "py_round 0 3 = 0" "py_round 1 3 = 1" "py_round (- 1) 3 = - 1"
  "py_round (3 / 5) 3 = 3 / 5" "py_round (8 / 5) 3 = 8 / 5"
  by (simp_all add: py_round_def round_half_even_def)

lemma radians_quarter_turn: "radians 90 = pi / 2" "radians (- 90) = - (pi / 2)" "radians 0 = 0"
  by (simp_all add: radians_def)

lemma rotate_pitch_up:
  "rotate py_round (Vec 1 0 0) (- 90) 0 0 True = Vec 0 0 1"
  by (simp add: rotate_def radians_quarter_turn py_round_examples)

lemma rotate_pitch_down:
  "rotate py_round (Vec 0 0 1) 90 0 0 True = Vec 1 0 0"
  by (simp add: rotate_def radians_quarter_turn py_round_examples)

lemma rotate_yaw_up:
  "rotate py_round (Vec 0 0 1) 0 90 0 True = Vec 0 0 1"
  by (simp add: rotate_def radians_quarter_turn py_round_examples)

lemma goo_raw_pos_0_6:
  "goo_raw_pos decimal_float py_round (Entity (Some ''0 0 0'') ''0 0 0'') ''0.6 0 0''
     = Inr (Vec (384 / 5) 0 0)"
  by (simp add: goo_raw_pos_def from_str_def key_default_def rotate_by_str_def
      parse_str_zero parse_str_0_6 rotate_zero_angles py_round_examples vec_mul_def vec_add_def)

lemma goo_raw_pos_1_6:
  "goo_raw_pos decimal_float py_round (Entity None ''0 0 0'') ''1.6 0 -1''
     = Inr (Vec (1024 / 5) 0 (- 128))"
  by (simp add: goo_raw_pos_def from_str_def key_default_def rotate_by_str_def
      parse_str_zero parse_str_1_6 rotate_zero_angles py_round_examples vec_mul_def vec_add_def)

lemma goo_cell_key_formula:
  "goo_raw_pos pyfloat pyround inst flag_value = Inr p \<Longrightarrow>
     goo_cell_key pyfloat pyround inst flag_value =
       Inr (of_int \<lfloor>vec_x p / 128\<rfloor> * 128 + 64,
            of_int \<lfloor>vec_y p / 128\<rfloor> * 128 + 64,
            of_int \<lfloor>vec_z p / 128\<rfloor> * 128 + 64)"
  by (simp add: goo_cell_key_def as_tuple_def vec_add_scalar_def vec_mul_def vec_floordiv_def
      py_floordiv_def)

lemma goo_cell_key_0_6:
  "goo_cell_key decimal_float py_round (Entity (Some ''0 0 0'') ''0 0 0'') ''0.6 0 0''
     = Inr (64, 64, 64)"
  by (simp add: goo_cell_key_formula [OF goo_raw_pos_0_6])

text \<open>
  C3, as stated, fails: the local offset \<open>(0.6, 0, 0)\<close> at origin \<open>(0, 0, 0)\<close> with angles
  \<open>0 0 0\<close> has the raw position \<open>(76.8, 0, 0)\<close>, whose cell is \<open>(0, 0, 0)\<close>: the key looked
  up is \<open>(64, 64, 64)\<close>, not one with \<open>x = 192\<close>.
\<close>

theorem goo_cell_0_6_counterexample:
  "goo_cell_key decimal_float py_round (Entity (Some ''0 0 0'') ''0 0 0'') ''0.6 0 0''
     = Inr (64, 64, 64)
   \<and> goo_cell_key decimal_float py_round (Entity (Some ''0 0 0'') ''0 0 0'') ''0.6 0 0''
     \<noteq> Inr (192, 64, 64)"
  by (simp add: goo_cell_key_0_6)

text \<open>
  C3, amended: for the raw world position \<open>p\<close> (the local offset rotated, multiplied by 128,
  plus the instance origin), the key looked up in the goo registry is
  \<open>floor (p / 128) * 128 + 64\<close> on each axis, whatever \<open>float\<close> and \<open>round\<close> return; in
  particular the local offset \<open>(0.6, 0, 0)\<close> with angles \<open>0 0 0\<close> at origin \<open>(0, 0, 0)\<close>
  resolves to the cell \<open>(0, 0, 0)\<close>, whose centre is \<open>(64, 64, 64)\<close>.
\<close>

theorem goo_cell_snapping:
  "(goo_raw_pos pyfloat pyround inst flag_value = Inr p \<longrightarrow>
      goo_cell_key pyfloat pyround inst flag_value =
        Inr (of_int \<lfloor>vec_x p / 128\<rfloor> * 128 + 64,
             of_int \<lfloor>vec_y p / 128\<rfloor> * 128 + 64,
             of_int \<lfloor>vec_z p / 128\<rfloor> * 128 + 64)
      \<and> flag_goo_at_loc pyfloat pyround GOO_LOCS inst flag_value =
          Inr ((of_int \<lfloor>vec_x p / 128\<rfloor> * 128 + 64,
                of_int \<lfloor>vec_y p / 128\<rfloor> * 128 + 64,
                of_int \<lfloor>vec_z p / 128\<rfloor> * 128 + 64) \<in> GOO_LOCS))
   \<and> goo_cell_key decimal_float py_round (Entity (Some ''0 0 0'') ''0 0 0'') ''0.6 0 0''
       = Inr (64, 64, 64)"
  by (simp add: goo_cell_key_formula goo_cell_key_0_6 flag_goo_at_loc_def)

theorem goo_cell_snapping_witness:
  "goo_raw_pos decimal_float py_round (Entity None ''0 0 0'') ''1.6 0 -1''
     = Inr (Vec (1024 / 5) 0 (- 128))
   \<and> goo_cell_key decimal_float py_round (Entity None ''0 0 0'') ''1.6 0 -1''
     = Inr (192, 64, - 64)
   \<and> flag_goo_at_loc decimal_float py_round {(192, 64, - 64)} (Entity None ''0 0 0'')
       ''1.6 0 -1'' = Inr True"
  using goo_cell_snapping [of decimal_float py_round "Entity None ''0 0 0''" "''1.6 0 -1''"
      "Vec (1024 / 5) 0 (- 128)" "{(192, 64, - 64)}"]
  by (simp add: goo_raw_pos_1_6)

lemma vec_eq_tuple_iff: "vec_eq_tuple v (a, b, c) \<longleftrightarrow> v = Vec a b c"
  by (cases v) (auto simp: vec_eq_tuple_def)

text \<open>
  C7: with a target that the keyword table resolves to \<open>WALL\<close>, the orientation flag
  returns true exactly when \<open>from_dir\<close>, rotated by the instance's angles (roll, then pitch,
  then yaw, and rounded to three decimals), is neither \<open>(0, 0, 1)\<close> nor \<open>(0, 0, -1)\<close>. This
  holds for every instance angle and every \<open>from_dir\<close> on which reading the options and the
  angles raises no error; \<open>pitch\<close>, \<open>yaw\<close> and \<open>roll\<close> are the angles read from the instance.
\<close>

theorem flag_angles_wall:
  assumes "flag_angles_options pyfloat DIRECTIONS flag = Inr (targ_angle, from_dir, allow_inverse)"
    and "DIRECTIONS (casefold targ_angle) = Some WALL"
    and "parse_str pyfloat (Str (key_default (ent_angles inst) ''0 0 0'')) 0 0 0
           = Inr (pitch, yaw, roll)"
  shows "flag_angles pyfloat pyround DIRECTIONS inst flag
           = Inr (rotate pyround from_dir pitch yaw roll True \<noteq> Vec 0 0 1
                  \<and> rotate pyround from_dir pitch yaw roll True \<noteq> Vec 0 0 (- 1))"
  using assms by (simp add: flag_angles_def rotate_by_str_def vec_eq_tuple_iff)

theorem flag_angles_wall_witness:
  "flag_angles decimal_float py_round (map_of [(''wall'', WALL)]) (Entity None ''0 0 0'')
       (Leaf ''WALL'') = Inr False
   \<and> flag_angles decimal_float py_round (map_of [(''wall'', WALL)])
       (Entity (Some ''90 0 0'') ''0 0 0'') (Leaf ''WALL'') = Inr True
   \<and> flag_angles decimal_float py_round (map_of [(''wall'', WALL)])
       (Entity (Some ''0 90 0'') ''0 0 0'') (Leaf ''WALL'') = Inr False
   \<and> flag_angles decimal_float py_round (map_of [(''wall'', WALL)])
       (Entity (Some ''0 0 0'') ''0 0 0'') (Block (Some ''Wall'') (Some ''1 0 0'') None)
       = Inr True
   \<and> flag_angles decimal_float py_round (map_of [(''wall'', WALL)])
       (Entity (Some ''-90 0 0'') ''0 0 0'') (Block (Some ''Wall'') (Some ''1 0 0'') None)
       = Inr False"
proof -
  let ?D = "map_of [(''wall'', WALL)]"
  have fold1: "casefold ''WALL'' = ''wall''" and fold2: "casefold ''Wall'' = ''wall''"
    and fold3: "casefold ''1 0 0'' = ''1 0 0''"
    by (simp_all add: casefold_def casefold_char_def)
  have opts1: "flag_angles_options decimal_float ?D (Leaf ''WALL'') = Inr (''WALL'', Vec 0 0 1, False)"
    by (simp add: flag_angles_options_def)
  have opts2: "flag_angles_options decimal_float ?D (Block (Some ''Wall'') (Some ''1 0 0'') None)
      = Inr (''Wall'', Vec 1 0 0, False)"
    by (simp add: flag_angles_options_def key_default_def fold3 from_str_def parse_str_x_axis
        BOOL_LOOKUP_text_def)
  have dir1: "?D (casefold ''WALL'') = Some WALL" and dir2: "?D (casefold ''Wall'') = Some WALL"
    by (simp_all add: fold1 fold2)
  have ang0: "parse_str decimal_float
      (Str (key_default (ent_angles (Entity None ''0 0 0'')) ''0 0 0'')) 0 0 0 = Inr (0, 0, 0)"
    by (simp add: key_default_def parse_str_zero)
  have ang1: "parse_str decimal_float
      (Str (key_default (ent_angles (Entity (Some ''90 0 0'') ''0 0 0'')) ''0 0 0'')) 0 0 0
        = Inr (90, 0, 0)"
    by (simp add: key_default_def parse_str_pitch_down)
  have ang2: "parse_str decimal_float
      (Str (key_default (ent_angles (Entity (Some ''0 90 0'') ''0 0 0'')) ''0 0 0'')) 0 0 0
        = Inr (0, 90, 0)"
    by (simp add: key_default_def parse_str_yaw)
  have ang3: "parse_str decimal_float
      (Str (key_default (ent_angles (Entity (Some ''0 0 0'') ''0 0 0'')) ''0 0 0'')) 0 0 0
        = Inr (0, 0, 0)"
    by (simp add: key_default_def parse_str_zero)
  have ang4: "parse_str decimal_float
      (Str (key_default (ent_angles (Entity (Some ''-90 0 0'') ''0 0 0'')) ''0 0 0'')) 0 0 0
        = Inr (- 90, 0, 0)"
    by (simp add: key_default_def parse_str_pitch_up)
  show ?thesis
    using flag_angles_wall [OF opts1 dir1 ang0, of py_round]
      flag_angles_wall [OF opts1 dir1 ang1, of py_round]
      flag_angles_wall [OF opts1 dir1 ang2, of py_round]
      flag_angles_wall [OF opts2 dir2 ang3, of py_round]
      flag_angles_wall [OF opts2 dir2 ang4, of py_round]
    by (simp del: map_of.simps
        add: rotate_zero_angles py_round_examples rotate_pitch_up rotate_pitch_down rotate_yaw_up)
qed

section \<open>Properties of fit\<close>

lemma adder_send_sum: "sum_list (fst (adder_send a v)) = sum_list (fst a) + v"
  by (cases a) (simp add: adder_send_def)

lemma fit_while_terminates:
  assumes "obj \<noteq> []" and "\<forall>i\<in>set obj. 0 < i" and "0 \<le> dst"
  shows "\<exists>d a. fit_while (last obj) obj dst adder = Some (d, a)
           \<and> 0 \<le> d \<and> d < last obj
           \<and> sum_list (fst a) + d = sum_list (fst adder) + dst"
  using assms(3)
proof (induction "nat dst" arbitrary: dst adder rule: less_induct)
  case less
  show ?case
  proof (cases "last obj \<le> dst")
    case False
    then show ?thesis
      using less.prems by (subst fit_while.simps) simp
  next
    case True
    have "last obj \<in> set obj" using assms(1) by simp
    with True have "\<exists>i\<in>set obj. i \<le> dst" by blast
    then obtain item where f: "find (\<lambda>item. item \<le> dst) obj = Some item"
      by (cases "find (\<lambda>item. item \<le> dst) obj") (auto simp: find_None_iff)
    then have "item \<in> set obj" and le: "item \<le> dst"
      by (auto simp: find_Some_iff)
    with assms(2) have pos: "0 < item" by blast
    from pos le have "nat (dst - item) < nat dst" and "0 \<le> dst - item" by simp_all
    from less.hyps [OF this, of "adder_send adder item"]
    obtain d a where r: "fit_while (last obj) obj (dst - item) (adder_send adder item) = Some (d, a)"
      and b: "0 \<le> d" "d < last obj"
      and sm: "sum_list (fst a) + d = sum_list (fst (adder_send adder item)) + (dst - item)"
      by blast
    have "fit_while (last obj) obj dst adder = Some (d, a)"
      using True f r by (subst fit_while.simps) simp
    with b sm show ?thesis by (simp add: adder_send_sum)
  qed
qed

text \<open>
  C5: for every target and every non-empty sequence of positive part sizes, \<open>fit\<close>
  terminates without an error; the result is empty when the truncated target is at most 0,
  and otherwise its parts (the remainder piece included) sum to the truncated target.
\<close>

theorem fit_sums_to_target:
  assumes "obj \<noteq> []" and "\<forall>i\<in>set obj. 0 < i"
  shows "\<exists>items. fit dst obj = Some (Inr items)
           \<and> (if py_int dst \<le> 0 then items = [] else sum_list items = py_int dst)"
proof (cases "py_int dst \<le> 0")
  case True
  then show ?thesis by (simp add: fit_def)
next
  case False
  then have "0 \<le> py_int dst" by simp
  from fit_while_terminates [OF assms this, of "append_bothsides []"]
  obtain d a where r: "fit_while (last obj) obj (py_int dst) (append_bothsides []) = Some (d, a)"
    and b: "0 \<le> d" and sm: "sum_list (fst a) + d = py_int dst"
    by (auto simp: append_bothsides_def)
  show ?thesis
    using False assms(1) r b sm
    by (cases "0 < d") (simp_all add: fit_def Let_def adder_send_sum)
qed

theorem fit_sums_to_target_witness:
  "(\<exists>items. fit (41 / 2) [12, 8, 4] = Some (Inr items) \<and> sum_list items = 20)
   \<and> fit (- 7 / 2) [12, 8, 4] = Some (Inr [])"
  using fit_sums_to_target [of "[12, 8, 4]" "41 / 2"] fit_sums_to_target [of "[12, 8, 4]" "- 7 / 2"]
  by (simp add: py_int_def)

section \<open>Properties of AtomicWriter\<close>

lemma run_body_other: "p \<noteq> tmp \<Longrightarrow> run_body fs tmp ops p = fs p"
  by (induction fs tmp ops rule: run_body.induct) (simp_all split: option.splits)

lemma run_body_writes:
  "DeleteTemp \<notin> set ops \<Longrightarrow> fs tmp = Some c \<Longrightarrow> run_body fs tmp ops = fs(tmp \<mapsto> c @ written ops)"
  by (induction fs tmp ops arbitrary: c rule: run_body.induct) (simp_all add: map_upd_triv)

lemma remove_fresh: "fs tmp = None \<Longrightarrow> (run_body (fs(tmp \<mapsto> c)) tmp ops)(tmp := None) = fs"
  by (rule ext) (simp add: run_body_other)

lemma run_body_gone:
  assumes "fs tmp = None" and "run_body (fs(tmp \<mapsto> c)) tmp ops tmp = None"
  shows "run_body (fs(tmp \<mapsto> c)) tmp ops = fs"
proof (rule ext)
  fix p
  show "run_body (fs(tmp \<mapsto> c)) tmp ops p = fs p"
  proof (cases "p = tmp")
    case True
    with assms show ?thesis by simp
  next
    case False
    then show ?thesis by (simp add: run_body_other)
  qed
qed

text \<open>
  C1: a \<open>with\<close> block on a writer that is not already open, whose temporary file is
  created under a name not in use, is all-or-nothing. If the body raises \<open>e\<close>, after any
  writes and even when the temporary file has been deleted meanwhile, \<open>e\<close> leaves the
  statement and the file system is exactly as before: the target has its old content or is
  still absent, and no temporary file is left. If the body's writes complete, no exception
  leaves the statement and the file system is the old one with the target holding exactly
  the data written: no temporary file is left.
\<close>

theorem atomic_writer_all_or_nothing:
  assumes "aw_temp w = None" and "fs tmp = None"
  shows "with_AtomicWriter w fs (Inr tmp) ops (Some e) = (Some e, w, fs)
       \<and> (DeleteTemp \<notin> set ops \<longrightarrow>
            with_AtomicWriter w fs (Inr tmp) ops None
              = (None, w, fs(aw_filename w \<mapsto> written ops)))"
proof
  have w: "w\<lparr>aw_temp := None\<rparr> = w" using assms(1) by simp
  have enter: "aw_enter w fs (Inr tmp) = (None, w\<lparr>aw_temp := Some tmp\<rparr>, fs(tmp \<mapsto> []))"
    using assms(1) by (simp add: aw_enter_def make_tempfile_def)
  let ?fs2 = "run_body (fs(tmp \<mapsto> [])) tmp ops"
  have exit_err: "aw_exit (w\<lparr>aw_temp := Some tmp\<rparr>) ?fs2 (Some e) = (Inr False, w, fs)"
  proof (cases "?fs2 tmp")
    case None
    then show ?thesis
      using w run_body_gone [of fs tmp "[]" ops] assms(2)
      by (simp add: aw_exit_def os_remove_def)
  next
    case (Some c)
    then show ?thesis
      using w remove_fresh [of fs tmp "[]" ops] assms(2)
      by (simp add: aw_exit_def os_remove_def)
  qed
  show "with_AtomicWriter w fs (Inr tmp) ops (Some e) = (Some e, w, fs)"
    by (simp add: with_AtomicWriter_def enter exit_err)
  show "DeleteTemp \<notin> set ops \<longrightarrow>
            with_AtomicWriter w fs (Inr tmp) ops None
              = (None, w, fs(aw_filename w \<mapsto> written ops))"
  proof
    assume nd: "DeleteTemp \<notin> set ops"
    have rb: "?fs2 = fs(tmp \<mapsto> written ops)"
      using run_body_writes [OF nd, of "fs(tmp \<mapsto> [])" tmp "[]"] by simp
    have gone: "fs(tmp := None) = fs"
      using assms(2) by (simp add: fun_upd_idem)
    have exit_ok: "aw_exit (w\<lparr>aw_temp := Some tmp\<rparr>) ?fs2 None
        = (Inr False, w, fs(aw_filename w \<mapsto> written ops))"
      using w by (simp add: aw_exit_def os_replace_def rb gone)
    show "with_AtomicWriter w fs (Inr tmp) ops None
              = (None, w, fs(aw_filename w \<mapsto> written ops))"
      by (simp add: with_AtomicWriter_def enter exit_ok)
  qed
qed

theorem atomic_writer_all_or_nothing_witness:
  "with_AtomicWriter (AtomicWriter_init ''cfg/a.txt'' False) [''cfg/a.txt'' \<mapsto> ''old'']
      (Inr ''cfg/tmp01'') [Write ''ne'', DeleteTemp, Write ''w''] (Some (Other ''boom''))
     = (Some (Other ''boom''), AtomicWriter_init ''cfg/a.txt'' False, [''cfg/a.txt'' \<mapsto> ''old''])
   \<and> with_AtomicWriter (AtomicWriter_init ''cfg/a.txt'' False) [''cfg/a.txt'' \<mapsto> ''old'']
      (Inr ''cfg/tmp01'') [Write ''ne'', Write ''w''] None
     = (None, AtomicWriter_init ''cfg/a.txt'' False, [''cfg/a.txt'' \<mapsto> ''new''])"
  using atomic_writer_all_or_nothing [of "AtomicWriter_init ''cfg/a.txt'' False"
      "[''cfg/a.txt'' \<mapsto> ''old'']" "''cfg/tmp01''" "[Write ''ne'', DeleteTemp, Write ''w'']"
      "Other ''boom''"]
    atomic_writer_all_or_nothing [of "AtomicWriter_init ''cfg/a.txt'' False"
      "[''cfg/a.txt'' \<mapsto> ''old'']" "''cfg/tmp01''" "[Write ''ne'', Write ''w'']" "Other ''boom''"]
  by (simp add: AtomicWriter_init_def)

section \<open>Properties of the resizable trigger's outputs\<close>

lemma copy_output_spec: "copy_output cfg out outputs = outputs @ spec_remap cfg out"
  by (auto simp: copy_output_def spec_remap_def matches_act_def matches_deact_def emitted_as_def)

lemma copy_outputs_loop_spec:
  "copy_outputs_loop cfg outs outputs = outputs @ concat (map (spec_remap cfg) outs)"
  by (induction outs arbitrary: outputs) (simp_all add: copy_output_spec)

text \<open>
  C6, as stated, fails when the marker's activate and deactivate pins are the same pin: an
  output on that pin matches the deactivate pin, yet it is emitted as the trigger's
  activate output only, since the activate test comes first.
\<close>

theorem trigger_same_pin_counterexample:
  "matches_deact
     \<lparr>trig_act = ''OnStartTouchAll'', trig_deact = ''OnEndTouchAll'',
        mark_act_name = None, mark_act_out = ''OnUser1'',
        mark_deact_name = None, mark_deact_out = ''OnUser1'',
        other_targetname = ''marker_b''\<rparr>
     (Output ''OnUser1'' ''door'' None None ''Open'' [] 0 (- 1))
   \<and> copy_marker_outputs
     \<lparr>trig_act = ''OnStartTouchAll'', trig_deact = ''OnEndTouchAll'',
        mark_act_name = None, mark_act_out = ''OnUser1'',
        mark_deact_name = None, mark_deact_out = ''OnUser1'',
        other_targetname = ''marker_b''\<rparr>
     [Output ''OnUser1'' ''door'' None None ''Open'' [] 0 (- 1)] [] []
     = [NewOutput ''OnStartTouchAll'' ''door'' None ''Open'' [] 0 (- 1)]"
  by (simp add: matches_deact_def copy_marker_outputs_def copy_output_def)

text \<open>
  C6, amended: the outputs of the two markers are copied to the trigger in order, each by
  the same rule. An output that targets the partner marker is dropped; otherwise an output
  on the activate pin is emitted as the trigger's activate output; otherwise (the activate
  pin not matching) an output on the deactivate pin is emitted as the trigger's deactivate
  output; an output on neither pin is dropped; and an output whose configured trigger
  output is the empty string is dropped.
\<close>

theorem trigger_outputs_remapped:
  "copy_marker_outputs cfg inst_outputs other_outputs outputs
     = outputs @ concat (map (spec_remap cfg) (inst_outputs @ other_outputs))
   \<and> (out_target out = other_targetname cfg \<longrightarrow> spec_remap cfg out = [])
   \<and> (out_target out \<noteq> other_targetname cfg \<and> matches_act cfg out \<and> trig_act cfg \<noteq> []
        \<longrightarrow> spec_remap cfg out = [emitted_as (trig_act cfg) out])
   \<and> (out_target out \<noteq> other_targetname cfg \<and> \<not> matches_act cfg out \<and> matches_deact cfg out
        \<and> trig_deact cfg \<noteq> []
        \<longrightarrow> spec_remap cfg out = [emitted_as (trig_deact cfg) out])
   \<and> (\<not> matches_act cfg out \<and> \<not> matches_deact cfg out \<longrightarrow> spec_remap cfg out = [])
   \<and> (matches_act cfg out \<and> trig_act cfg = [] \<longrightarrow> spec_remap cfg out = [])
   \<and> (\<not> matches_act cfg out \<and> matches_deact cfg out \<and> trig_deact cfg = []
        \<longrightarrow> spec_remap cfg out = [])"
  by (simp add: copy_marker_outputs_def copy_outputs_loop_spec spec_remap_def)

theorem trigger_outputs_remapped_witness:
  "copy_marker_outputs
     \<lparr>trig_act = ''OnStartTouchAll'', trig_deact = [],
        mark_act_name = Some ''inst_a'', mark_act_out = ''OnUser1'',
        mark_deact_name = Some ''inst_a'', mark_deact_out = ''OnUser2'',
        other_targetname = ''marker_b''\<rparr>
     [Output ''OnUser1'' ''door'' (Some ''inst_a'') None ''Open'' [] 0 (- 1),
      Output ''OnUser1'' ''marker_b'' (Some ''inst_a'') None ''Trigger'' [] 0 (- 1)]
     [Output ''OnUser2'' ''door'' (Some ''inst_a'') None ''Close'' [] 0 (- 1),
      Output ''OnUser3'' ''lamp'' (Some ''inst_a'') None ''TurnOn'' [] 0 (- 1)]
     []
     = [NewOutput ''OnStartTouchAll'' ''door'' None ''Open'' [] 0 (- 1)]"
  using trigger_outputs_remapped [of
     "\<lparr>trig_act = ''OnStartTouchAll'', trig_deact = [],
        mark_act_name = Some ''inst_a'', mark_act_out = ''OnUser1'',
        mark_deact_name = Some ''inst_a'', mark_deact_out = ''OnUser2'',
        other_targetname = ''marker_b''\<rparr>"
     "[Output ''OnUser1'' ''door'' (Some ''inst_a'') None ''Open'' [] 0 (- 1),
      Output ''OnUser1'' ''marker_b'' (Some ''inst_a'') None ''Trigger'' [] 0 (- 1)]"
     "[Output ''OnUser2'' ''door'' (Some ''inst_a'') None ''Close'' [] 0 (- 1),
      Output ''OnUser3'' ''lamp'' (Some ''inst_a'') None ''TurnOn'' [] 0 (- 1)]"
     "[]" "Output ''OnUser1'' ''door'' (Some ''inst_a'') None ''Open'' [] 0 (- 1)"]
  by (simp add: spec_remap_def matches_act_def matches_deact_def emitted_as_def)

section \<open>Properties of the voice module's values\<close>

lemma and_then_Inr: "and_then r f = Inr b \<longleftrightarrow> (\<exists>a. r = Inr a \<and> f a = Inr b)"
  by (cases r) (simp_all add: and_then_def)

lemma pass_keeps_refl: "pass_keeps m m"
  by (simp add: pass_keeps_def split: option.splits)

lemma pass_keeps_trans:
  assumes "pass_keeps m m1" and "pass_keeps m1 m2"
  shows "pass_keeps m m2"
proof (cases "VMF m")
  case None
  with assms show ?thesis by (auto simp: pass_keeps_def)
next
  case (Some old)
  with assms(1) obtain new1 where v1: "VMF m1 = Some (old @ new1)"
    and b1: "\<forall>b\<in>ADDED_BULLSEYES m. Ent ''npc_bullseye'' b \<notin> set new1"
    by (auto simp: pass_keeps_def)
  with assms(2) obtain new2 where v2: "VMF m2 = Some ((old @ new1) @ new2)"
    and b2: "\<forall>b\<in>ADDED_BULLSEYES m1. Ent ''npc_bullseye'' b \<notin> set new2"
    by (auto simp: pass_keeps_def)
  have sub: "ADDED_BULLSEYES m \<subseteq> ADDED_BULLSEYES m1"
    using assms(1) by (simp add: pass_keeps_def)
  have "VMF m2 = Some (old @ (new1 @ new2))" using v2 by simp
  moreover have "\<forall>b\<in>ADDED_BULLSEYES m. Ent ''npc_bullseye'' b \<notin> set (new1 @ new2)"
    using b1 b2 sub by auto
  ultimately have "\<exists>new. VMF m2 = Some (old @ new)
      \<and> (\<forall>b\<in>ADDED_BULLSEYES m. Ent ''npc_bullseye'' b \<notin> set new)"
    by blast
  with assms Some show ?thesis by (auto simp: pass_keeps_def)
qed

lemma add_item_keeps:
  assumes "add_item m item = Inr m1"
    and "\<forall>b\<in>ADDED_BULLSEYES m. item \<noteq> Ent ''npc_bullseye'' b"
  shows "pass_keeps m m1"
proof (cases "VMF m")
  case None
  with assms(1) show ?thesis by (simp add: add_item_def)
next
  case (Some old)
  with assms(1) have m1: "m1 = m\<lparr>VMF := Some (old @ [item])\<rparr>"
    by (simp add: add_item_def)
  have "\<forall>b\<in>ADDED_BULLSEYES m. Ent ''npc_bullseye'' b \<notin> set [item]"
    using assms(2) by auto
  then show ?thesis
    unfolding pass_keeps_def m1 using Some by auto
qed

lemma create_ent_keeps:
  assumes "create_ent m c t = Inr m1" and "c \<noteq> ''npc_bullseye''"
  shows "pass_keeps m m1"
proof -
  have "add_item m (Ent c t) = Inr m1" using assms(1) by (simp add: create_ent_def)
  moreover have "\<forall>b\<in>ADDED_BULLSEYES m. Ent c t \<noteq> Ent ''npc_bullseye'' b"
    using assms(2) by simp
  ultimately show ?thesis by (rule add_item_keeps)
qed

lemma class_names_differ:
  "''logic_choreographed_scene'' \<noteq> ''npc_bullseye''" "''func_instance'' \<noteq> ''npc_bullseye''"
  "''ambient_generic'' \<noteq> ''npc_bullseye''" "''env_microphone'' \<noteq> ''npc_bullseye''"
  by simp_all

lemma add_choreo_keeps:
  assumes "add_choreo m t = Inr m1"
  shows "pass_keeps m m1"
proof -
  have "create_ent m ''logic_choreographed_scene'' t = Inr m1"
    using assms by (simp add: add_choreo_def)
  then show ?thesis by (rule create_ent_keeps) (rule class_names_differ)
qed

lemma add_choreo_lines_keeps:
  "add_choreo_lines m t ind ls = Inr m1 \<Longrightarrow> pass_keeps m m1"
proof (induction ls arbitrary: m ind)
  case Nil
  then show ?case by (simp add: pass_keeps_refl)
next
  case (Cons l ls)
  then obtain m2 where a: "add_choreo m (if ind = 1 then t else (lstrip_at t @ ''_'') @ nat_str ind) = Inr m2"
    and b: "add_choreo_lines m2 t (Suc ind) ls = Inr m1"
    by (auto simp: and_then_Inr)
  from add_choreo_keeps [OF a] Cons.IH [OF b] show ?case by (rule pass_keeps_trans)
qed

lemma bullseye_keeps:
  assumes "create_ent m ''npc_bullseye'' v = Inr m2" and "v \<notin> ADDED_BULLSEYES m"
  shows "pass_keeps m (m2\<lparr>ADDED_BULLSEYES := insert v (ADDED_BULLSEYES m2)\<rparr>)"
proof -
  have "add_item m (Ent ''npc_bullseye'' v) = Inr m2"
    using assms(1) by (simp add: create_ent_def)
  moreover have "\<forall>b\<in>ADDED_BULLSEYES m. Ent ''npc_bullseye'' v \<noteq> Ent ''npc_bullseye'' b"
    using assms(2) by auto
  ultimately have "pass_keeps m m2" by (rule add_item_keeps)
  then show ?thesis
    by (auto simp: pass_keeps_def split: option.splits)
qed

lemma add_quote_prop_keeps:
  "add_quote_prop (m, t) p = Inr (m1, t1) \<Longrightarrow> pass_keeps m m1"
proof (cases p)
  case (Bullseye v)
  assume r: "add_quote_prop (m, t) p = Inr (m1, t1)"
  show ?thesis
  proof (cases "v \<in> ADDED_BULLSEYES m")
    case True
    with r Bullseye show ?thesis by (simp add: pass_keeps_refl)
  next
    case False
    with r Bullseye obtain m2 where c: "create_ent m ''npc_bullseye'' v = Inr m2"
      and e: "m1 = m2\<lparr>ADDED_BULLSEYES := insert v (ADDED_BULLSEYES m2)\<rparr>"
      by (auto simp: and_then_Inr)
    from bullseye_keeps [OF c False] e show ?thesis by simp
  qed
next
  case (SetStyleVar v)
  assume "add_quote_prop (m, t) p = Inr (m1, t1)"
  with SetStyleVar show ?thesis
    by (auto simp: pass_keeps_def split: option.splits)
next
  case (File v)
  assume "add_quote_prop (m, t) p = Inr (m1, t1)"
  with File have "create_ent m ''func_instance'' [] = Inr m1"
    by (auto simp: and_then_Inr)
  then show ?thesis by (rule create_ent_keeps) (rule class_names_differ)
next
  case (Choreo v)
  assume "add_quote_prop (m, t) p = Inr (m1, t1)"
  with Choreo have "add_choreo m t = Inr m1"
    by (auto simp: and_then_Inr)
  then show ?thesis by (rule add_choreo_keeps)
next
  case (ChoreoLines vs)
  assume "add_quote_prop (m, t) p = Inr (m1, t1)"
  with ChoreoLines have "add_choreo_lines m t 1 vs = Inr m1"
    by (auto simp: and_then_Inr)
  then show ?thesis by (rule add_choreo_lines_keeps)
next
  case (Snd v)
  assume "add_quote_prop (m, t) p = Inr (m1, t1)"
  with Snd have "create_ent m ''ambient_generic'' t = Inr m1"
    by (auto simp: and_then_Inr)
  then show ?thesis by (rule create_ent_keeps) (rule class_names_differ)
next
  case (ChoreoName v)
  assume "add_quote_prop (m, t) p = Inr (m1, t1)"
  with ChoreoName show ?thesis by (simp add: pass_keeps_refl)
next
  case OtherProp
  assume "add_quote_prop (m, t) p = Inr (m1, t1)"
  with OtherProp show ?thesis by (simp add: pass_keeps_refl)
qed

lemma add_quote_loop_keeps:
  "add_quote_loop (m, t) ps = Inr (m1, t1) \<Longrightarrow> pass_keeps m m1"
proof (induction ps arbitrary: m t)
  case Nil
  then show ?case by (simp add: pass_keeps_refl)
next
  case (Cons p ps)
  then obtain m2 t2 where a: "add_quote_prop (m, t) p = Inr (m2, t2)"
    and b: "add_quote_loop (m2, t2) ps = Inr (m1, t1)"
    by (auto simp: and_then_Inr)
  from add_quote_prop_keeps [OF a] Cons.IH [OF b] show ?case by (rule pass_keeps_trans)
qed

lemma add_quote_keeps: "add_quote m q t = Inr m1 \<Longrightarrow> pass_keeps m m1"
  by (auto simp: add_quote_def and_then_Inr dest: add_quote_loop_keeps)

lemma add_group_quotes_keeps:
  "add_group_quotes m mids gs = Inr (m1, mids1) \<Longrightarrow> pass_keeps m m1"
proof (induction gs arbitrary: m mids)
  case Nil
  then show ?case by (simp add: pass_keeps_refl)
next
  case (Cons g gs)
  obtain chosen new_mid where g: "g m = (chosen, new_mid)" by (cases "g m")
  with Cons.prems obtain m2 where
    a: "(case chosen of None \<Rightarrow> Inr m | Some (q, t) \<Rightarrow> add_quote m q t) = Inr m2"
    and b: "add_group_quotes m2 (mids @ new_mid) gs = Inr (m1, mids1)"
    by (auto simp: and_then_Inr)
  have "pass_keeps m m2"
    using a by (auto simp: pass_keeps_refl split: option.splits dest: add_quote_keeps)
  from this Cons.IH [OF b] show ?case by (rule pass_keeps_trans)
qed

lemma add_mid_quotes_keeps: "add_mid_quotes m mids = Inr m1 \<Longrightarrow> pass_keeps m m1"
proof (induction mids arbitrary: m)
  case Nil
  then show ?case by (simp add: pass_keeps_refl)
next
  case (Cons c mids)
  obtain q t where c: "c = (q, t)" by (cases c)
  with Cons.prems obtain m2 where a: "add_quote m q t = Inr m2"
    and b: "add_mid_quotes m2 mids = Inr m1"
    by (auto simp: and_then_Inr)
  from add_quote_keeps [OF a] Cons.IH [OF b] show ?case by (rule pass_keeps_trans)
qed

lemma add_microphones_keeps: "add_microphones m um gm = Inr m1 \<Longrightarrow> pass_keeps m m1"
proof -
  assume "add_microphones m um gm = Inr m1"
  then obtain wanted where
    r: "(if wanted then
            (if gm = ''SP'' then create_ent m ''env_microphone'' ''player_speaker_sp''
             else and_then (create_ent m ''env_microphone'' ''player_speaker_blue'')
                 (\<lambda>m1. create_ent m1 ''env_microphone'' ''player_speaker_orange''))
          else Inr m) = Inr m1"
    by (auto simp: add_microphones_def and_then_Inr)
  show ?thesis
  proof (cases wanted)
    case False
    with r show ?thesis by (simp add: pass_keeps_refl)
  next
    case True
    show ?thesis
    proof (cases "gm = ''SP''")
      case True
      with \<open>wanted\<close> r have "create_ent m ''env_microphone'' ''player_speaker_sp'' = Inr m1"
        by simp
      then show ?thesis by (rule create_ent_keeps) (rule class_names_differ)
    next
      case False
      with \<open>wanted\<close> r obtain m2 where
        a: "create_ent m ''env_microphone'' ''player_speaker_blue'' = Inr m2"
        and b: "create_ent m2 ''env_microphone'' ''player_speaker_orange'' = Inr m1"
        by (auto simp: and_then_Inr)
      have "pass_keeps m m2" using a by (rule create_ent_keeps) (rule class_names_differ)
      moreover have "pass_keeps m2 m1" using b by (rule create_ent_keeps) (rule class_names_differ)
      ultimately show ?thesis by (rule pass_keeps_trans)
    qed
  qed
qed

lemma add_event_instances_items:
  "add_event_instances m ind files = Inr m1 \<Longrightarrow> VMF m = Some old \<Longrightarrow>
     pass_keeps m m1
     \<and> VMF m1 = Some (old @ map (\<lambda>i. Ent ''func_instance'' (''voice_event_'' @ nat_str i))
                               [ind ..< ind + length files])"
proof (induction files arbitrary: m ind old)
  case Nil
  then show ?case by (simp add: pass_keeps_refl)
next
  case (Cons f files)
  from Cons.prems obtain m2 where
    a: "create_ent m ''func_instance'' (''voice_event_'' @ nat_str ind) = Inr m2"
    and b: "add_event_instances m2 (Suc ind) files = Inr m1"
    by (auto simp: and_then_Inr)
  have k: "pass_keeps m m2" using a by (rule create_ent_keeps) (rule class_names_differ)
  have v2: "VMF m2 = Some (old @ [Ent ''func_instance'' (''voice_event_'' @ nat_str ind)])"
    using a Cons.prems(2) by (auto simp: create_ent_def add_item_def)
  from Cons.IH [OF b v2] have k2: "pass_keeps m2 m1"
    and v1: "VMF m1 = Some ((old @ [Ent ''func_instance'' (''voice_event_'' @ nat_str ind)])
        @ map (\<lambda>i. Ent ''func_instance'' (''voice_event_'' @ nat_str i))
            [Suc ind ..< Suc ind + length files])"
    by simp_all
  have "[ind ..< ind + length (f # files)] = ind # [Suc ind ..< Suc ind + length files]"
    by (simp add: upt_rec)
  with v1 pass_keeps_trans [OF k k2] show ?case by simp
qed

lemma dict_set_keys: "k \<in> fst ` set qe \<Longrightarrow> map fst (dict_set k v qe) = map fst qe"
  by (induction qe) auto

lemma dict_set_lookup: "map_of (dict_set k v qe) k = Some v"
  by (induction qe) auto

lemma dict_set_other: "(k, f) \<in> set qe \<Longrightarrow> k \<noteq> k1 \<Longrightarrow> (k, f) \<in> set (dict_set k1 v qe)"
  by (induction qe) auto

lemma quote_events_loop_keys: "map fst (quote_events_loop events qe) = map fst qe"
proof (induction events arbitrary: qe)
  case Nil
  show ?case by simp
next
  case (Cons ev events)
  obtain i f where ev: "ev = (i, f)" by (cases ev)
  show ?case
    by (simp add: ev Let_def Cons.IH dict_set_keys)
qed

lemma quote_events_loop_append:
  "quote_events_loop (evs @ evs1) qe = quote_events_loop evs1 (quote_events_loop evs qe)"
proof (induction evs arbitrary: qe)
  case Nil
  show ?case by simp
next
  case (Cons ev evs)
  obtain i f where ev: "ev = (i, f)" by (cases ev)
  show ?case by (simp add: ev Let_def Cons.IH)
qed

lemma quote_events_loop_last:
  assumes "casefold i \<noteq> []" and "casefold i \<in> fst ` set qe"
  shows "map_of (quote_events_loop (evs @ [(i, file)]) qe) (casefold i) = Some (INST_PREFIX @ file)"
proof -
  have "fst ` set (quote_events_loop evs qe) = fst ` set qe"
    using quote_events_loop_keys [of evs qe] by (metis set_map)
  with assms show ?thesis
    by (simp add: quote_events_loop_append Let_def dict_set_lookup)
qed

lemma quote_events_loop_other:
  "(k, f) \<in> set qe \<Longrightarrow> k \<notin> (\<lambda>e. casefold (fst e)) ` set evs \<Longrightarrow>
     (k, f) \<in> set (quote_events_loop evs qe)"
proof (induction evs arbitrary: qe)
  case Nil
  then show ?case by simp
next
  case (Cons ev evs)
  obtain i fl where ev: "ev = (i, fl)" by (cases ev)
  from Cons.prems ev have ne: "k \<noteq> casefold i" and rest: "k \<notin> (\<lambda>e. casefold (fst e)) ` set evs"
    by auto
  have "(k, f) \<in> set (if casefold i \<noteq> [] \<and> casefold i \<in> fst ` set qe
            then dict_set (casefold i) (INST_PREFIX @ fl) qe else qe)"
    using Cons.prems(1) ne by (simp add: dict_set_other)
  from Cons.IH [OF this rest] show ?case by (simp add: ev Let_def)
qed

lemma add_voice_pass:
  assumes "add_voice m has_items new_style_vars vmf_file qd gm grps = Inr m1"
  shows "map_attr m1 = has_items
    \<and> ALLOW_MID_VOICES m1 = (new_style_vars ''nomidvoices'' \<noteq> Some True)
    \<and> QUOTE_EVENTS m1 = quote_events_loop (qd_events qd) (QUOTE_EVENTS m)
    \<and> ADDED_BULLSEYES m \<subseteq> ADDED_BULLSEYES m1
    \<and> (\<exists>new. VMF m1 = Some (vmf_file @ new)
         \<and> (\<forall>i<length (QUOTE_EVENTS m).
               Ent ''func_instance'' (''voice_event_'' @ nat_str i) \<in> set new)
         \<and> (\<forall>b\<in>ADDED_BULLSEYES m. Ent ''npc_bullseye'' b \<notin> set new))"
proof -
  define s1 where "s1 = add_voice_begin m has_items new_style_vars vmf_file"
  from assms obtain s2 s3 allow_dings s6 s8 s9 mids s10 where
    base: "(case qd_base qd of None \<Rightarrow> Inr s1
            | Some quote_base \<Rightarrow>
                if quote_base \<noteq> [] then create_ent s1 ''func_instance'' ''voice'' else Inr s1) = Inr s2"
    and box: "add_item s2 HollowBox = Inr s3"
    and dings: "(if allow_dings then
              and_then (create_ent (s3\<lparr>ALLOW_MID_VOICES :=
                          \<not> (case style_vars s3 ''nomidvoices'' of None \<Rightarrow> False | Some b \<Rightarrow> b)\<rparr>)
                  ''logic_choreographed_scene'' ''@ding_on'')
                (\<lambda>m5. create_ent m5 ''logic_choreographed_scene'' ''@ding_off'')
            else Inr (s3\<lparr>ALLOW_MID_VOICES :=
                          \<not> (case style_vars s3 ''nomidvoices'' of None \<Rightarrow> False | Some b \<Rightarrow> b)\<rparr>)) = Inr s6"
    and evs: "add_event_instances
        (s6\<lparr>QUOTE_EVENTS := quote_events_loop (qd_events qd) (QUOTE_EVENTS s6)\<rparr>) 0
        (map snd (quote_events_loop (qd_events qd) (QUOTE_EVENTS s6))) = Inr s8"
    and grp: "add_group_quotes s8 [] grps = Inr (s9, mids)"
    and mic: "add_microphones s9 (qd_use_microphones qd) gm = Inr s10"
    and mid: "add_mid_quotes s10 mids = Inr m1"
    unfolding add_voice_def Let_def s1_def [symmetric]
    by (auto simp: and_then_Inr)
  let ?s4 = "s3\<lparr>ALLOW_MID_VOICES :=
                \<not> (case style_vars s3 ''nomidvoices'' of None \<Rightarrow> False | Some b \<Rightarrow> b)\<rparr>"
  let ?s7 = "s6\<lparr>QUOTE_EVENTS := quote_events_loop (qd_events qd) (QUOTE_EVENTS s6)\<rparr>"
  have k12: "pass_keeps s1 s2"
  proof (cases "\<exists>quote_base. qd_base qd = Some quote_base \<and> quote_base \<noteq> []")
    case True
    with base have "create_ent s1 ''func_instance'' ''voice'' = Inr s2" by auto
    then show ?thesis by (rule create_ent_keeps) (rule class_names_differ)
  next
    case False
    with base have "s2 = s1" by (auto split: option.splits if_splits)
    then show ?thesis by (simp add: pass_keeps_refl)
  qed
  have k23: "pass_keeps s2 s3" using box by (rule add_item_keeps) simp
  have k13: "pass_keeps s1 s3" using k12 k23 by (rule pass_keeps_trans)
  have sv3: "style_vars s3 = new_style_vars"
  proof -
    have "style_vars s2 = style_vars s1"
      using base by (auto simp: create_ent_def add_item_def split: option.splits if_splits)
    moreover have "style_vars s3 = style_vars s2"
      using box by (auto simp: add_item_def split: option.splits)
    ultimately show ?thesis by (simp add: s1_def add_voice_begin_def)
  qed
  have k46: "pass_keeps ?s4 s6"
  proof (cases allow_dings)
    case False
    with dings show ?thesis by (simp add: pass_keeps_refl)
  next
    case True
    with dings obtain s5 where
      a: "create_ent ?s4 ''logic_choreographed_scene'' ''@ding_on'' = Inr s5"
      and b: "create_ent s5 ''logic_choreographed_scene'' ''@ding_off'' = Inr s6"
      by (auto simp: and_then_Inr)
    have "pass_keeps ?s4 s5" using a by (rule create_ent_keeps) (rule class_names_differ)
    moreover have "pass_keeps s5 s6" using b by (rule create_ent_keeps) (rule class_names_differ)
    ultimately show ?thesis by (rule pass_keeps_trans)
  qed
  have v1: "VMF s1 = Some vmf_file" and a1: "ADDED_BULLSEYES s1 = ADDED_BULLSEYES m"
    and q1: "QUOTE_EVENTS s1 = QUOTE_EVENTS m" and ma1: "map_attr s1 = has_items"
    by (simp_all add: s1_def add_voice_begin_def)
  from k13 v1 a1 obtain n1 where v3: "VMF s3 = Some (vmf_file @ n1)"
    and b3: "\<forall>b\<in>ADDED_BULLSEYES m. Ent ''npc_bullseye'' b \<notin> set n1"
    and a3: "ADDED_BULLSEYES m \<subseteq> ADDED_BULLSEYES s3"
    and q3: "QUOTE_EVENTS s3 = QUOTE_EVENTS m" and ma3: "map_attr s3 = has_items"
    using q1 ma1 by (auto simp: pass_keeps_def)
  from k46 v3 obtain n2 where v6: "VMF s6 = Some ((vmf_file @ n1) @ n2)"
    and b6: "\<forall>b\<in>ADDED_BULLSEYES s3. Ent ''npc_bullseye'' b \<notin> set n2"
    and a6: "ADDED_BULLSEYES s3 \<subseteq> ADDED_BULLSEYES s6"
    and q6: "QUOTE_EVENTS s6 = QUOTE_EVENTS m" and ma6: "map_attr s6 = has_items"
    and al6: "ALLOW_MID_VOICES s6 = (new_style_vars ''nomidvoices'' \<noteq> Some True)"
    using q3 ma3 sv3 by (auto simp: pass_keeps_def split: option.splits)
  have v7: "VMF ?s7 = Some ((vmf_file @ n1) @ n2)" using v6 by simp
  let ?ev = "map (\<lambda>i. Ent ''func_instance'' (''voice_event_'' @ nat_str i))
      [0 ..< 0 + length (map snd (quote_events_loop (qd_events qd) (QUOTE_EVENTS s6)))]"
  from add_event_instances_items [OF evs v7]
  have k78: "pass_keeps ?s7 s8" and v8: "VMF s8 = Some (((vmf_file @ n1) @ n2) @ ?ev)"
    by simp_all
  have len: "length (quote_events_loop (qd_events qd) (QUOTE_EVENTS s6)) = length (QUOTE_EVENTS m)"
    using quote_events_loop_keys [of "qd_events qd" "QUOTE_EVENTS s6"] q6
    by (metis length_map)
  have k8f: "pass_keeps s8 m1"
    by (rule pass_keeps_trans [OF add_group_quotes_keeps [OF grp]
          pass_keeps_trans [OF add_microphones_keeps [OF mic] add_mid_quotes_keeps [OF mid]]])
  from k78 have a8: "ADDED_BULLSEYES s6 \<subseteq> ADDED_BULLSEYES s8"
    and q8: "QUOTE_EVENTS s8 = quote_events_loop (qd_events qd) (QUOTE_EVENTS m)"
    and ma8: "map_attr s8 = has_items"
    and al8: "ALLOW_MID_VOICES s8 = (new_style_vars ''nomidvoices'' \<noteq> Some True)"
    using q6 ma6 al6 by (auto simp: pass_keeps_def)
  from k8f v8 obtain n3 where vf: "VMF m1 = Some ((((vmf_file @ n1) @ n2) @ ?ev) @ n3)"
    and bf: "\<forall>b\<in>ADDED_BULLSEYES s8. Ent ''npc_bullseye'' b \<notin> set n3"
    and af: "ADDED_BULLSEYES s8 \<subseteq> ADDED_BULLSEYES m1"
    and qf: "QUOTE_EVENTS m1 = QUOTE_EVENTS s8" and maf: "map_attr m1 = map_attr s8"
    and alf: "ALLOW_MID_VOICES m1 = ALLOW_MID_VOICES s8"
    by (auto simp: pass_keeps_def)
  let ?new = "n1 @ n2 @ ?ev @ n3"
  have sub: "ADDED_BULLSEYES m \<subseteq> ADDED_BULLSEYES m1"
    using a3 a6 a8 af by blast
  have vnew: "VMF m1 = Some (vmf_file @ ?new)" using vf by simp
  have evin: "\<forall>i<length (QUOTE_EVENTS m).
      Ent ''func_instance'' (''voice_event_'' @ nat_str i) \<in> set ?new"
    using len by auto
  have a_m8: "ADDED_BULLSEYES m \<subseteq> ADDED_BULLSEYES s8" using a3 a6 a8 by blast
  have nob2: "\<forall>b\<in>ADDED_BULLSEYES m. Ent ''npc_bullseye'' b \<notin> set n2"
    using b6 a3 by blast
  have nob3: "\<forall>b\<in>ADDED_BULLSEYES m. Ent ''npc_bullseye'' b \<notin> set n3"
    using bf a_m8 by blast
  have nobev: "\<forall>b. Ent ''npc_bullseye'' b \<notin> set ?ev"
    using class_names_differ(2) by auto
  have nob: "\<forall>b\<in>ADDED_BULLSEYES m. Ent ''npc_bullseye'' b \<notin> set ?new"
    using b3 nob2 nob3 nobev by simp
  from vnew evin nob have "\<exists>new. VMF m1 = Some (vmf_file @ new)
         \<and> (\<forall>i<length (QUOTE_EVENTS m).
               Ent ''func_instance'' (''voice_event_'' @ nat_str i) \<in> set new)
         \<and> (\<forall>b\<in>ADDED_BULLSEYES m. Ent ''npc_bullseye'' b \<notin> set new)"
    by blast
  with sub qf q8 maf ma8 alf al8 show ?thesis by simp
qed

lemmas pass_steps =
  add_voice_def add_voice_begin_def and_then_def create_ent_def add_item_def key_default_def
  add_microphones_def add_quote_def add_choreo_def fixed_group_def BOOL_LOOKUP_text_def
  INST_PREFIX_def nat_str.simps digit_char_def casefold_def casefold_char_def

lemma add_voice_first_pass:
  "add_voice voice_module_init Map.empty Map.empty []
      \<lparr>qd_base = None, qd_use_dings = None, qd_events = [], qd_use_microphones = None\<rparr>
      ''SP'' [fixed_group (Some ([Bullseye ''cave_bullseye''], ''@choreo'')) []]
     = Inr \<lparr>map_attr = Map.empty, style_vars = Map.empty, ADDED_BULLSEYES = {''cave_bullseye''},
        QUOTE_EVENTS = [], ALLOW_MID_VOICES = True,
        VMF = Some [HollowBox, Ent ''npc_bullseye'' ''cave_bullseye'',
                    Ent ''env_microphone'' ''player_speaker_sp'']\<rparr>"
  by (simp add: pass_steps voice_module_init_def)

lemma add_voice_second_pass:
  "add_voice
      \<lparr>map_attr = Map.empty, style_vars = Map.empty, ADDED_BULLSEYES = {''cave_bullseye''},
        QUOTE_EVENTS = [], ALLOW_MID_VOICES = True,
        VMF = Some [HollowBox, Ent ''npc_bullseye'' ''cave_bullseye'',
                    Ent ''env_microphone'' ''player_speaker_sp'']\<rparr>
      Map.empty Map.empty []
      \<lparr>qd_base = None, qd_use_dings = None, qd_events = [], qd_use_microphones = None\<rparr>
      ''SP'' [fixed_group (Some ([Bullseye ''cave_bullseye''], ''@choreo'')) []]
     = Inr \<lparr>map_attr = Map.empty, style_vars = Map.empty, ADDED_BULLSEYES = {''cave_bullseye''},
        QUOTE_EVENTS = [], ALLOW_MID_VOICES = True,
        VMF = Some [HollowBox, Ent ''env_microphone'' ''player_speaker_sp'']\<rparr>"
  by (simp add: pass_steps)

lemma add_voice_event_pass:
  "add_voice
      \<lparr>map_attr = Map.empty, style_vars = Map.empty, ADDED_BULLSEYES = {''cave_bullseye''},
        QUOTE_EVENTS = [(''evt'', ''default_evt.vmf'')], ALLOW_MID_VOICES = False,
        VMF = None\<rparr>
      Map.empty Map.empty []
      \<lparr>qd_base = Some ''voice_base.vmf'', qd_use_dings = Some ''1'',
        qd_events = [(''EVT'', ''cave_evt.vmf'')], qd_use_microphones = None\<rparr>
      ''COOP'' [fixed_group (Some ([Bullseye ''cave_bullseye'', Choreo ''cave_01.vcd''], ''@choreo'')) []]
     = Inr \<lparr>map_attr = Map.empty, style_vars = Map.empty, ADDED_BULLSEYES = {''cave_bullseye''},
        QUOTE_EVENTS = [(''evt'', ''instances/BEE2/voice/cave_evt.vmf'')],
        ALLOW_MID_VOICES = True,
        VMF = Some [Ent ''func_instance'' ''voice'', HollowBox,
                    Ent ''logic_choreographed_scene'' ''@ding_on'',
                    Ent ''logic_choreographed_scene'' ''@ding_off'',
                    Ent ''func_instance'' ''voice_event_0'',
                    Ent ''logic_choreographed_scene'' ''@choreo'',
                    Ent ''env_microphone'' ''player_speaker_blue'',
                    Ent ''env_microphone'' ''player_speaker_orange'']\<rparr>"
  by (simp add: pass_steps)

text \<open>
  C4, as stated, fails: the start of a pass leaves \<open>ADDED_BULLSEYES\<close> and \<open>QUOTE_EVENTS\<close>
  as they are. A quote event registered before a pass is still registered after its start,
  and a bullseye name recorded by a first pass is still recorded at the start of a second
  one, so that the second pass, on a new map document, creates the box and the microphone
  but no bullseye entity for the same line.
\<close>

theorem add_voice_second_pass_counterexample:
  "QUOTE_EVENTS (add_voice_begin (res_quote_event voice_module_init ''Evt'' ''evt.vmf'')
       Map.empty Map.empty []) = [(''evt'', ''evt.vmf'')]
   \<and> add_voice voice_module_init Map.empty Map.empty []
       \<lparr>qd_base = None, qd_use_dings = None, qd_events = [], qd_use_microphones = None\<rparr>
       ''SP'' [fixed_group (Some ([Bullseye ''cave_bullseye''], ''@choreo'')) []]
       = Inr \<lparr>map_attr = Map.empty, style_vars = Map.empty, ADDED_BULLSEYES = {''cave_bullseye''},
        QUOTE_EVENTS = [], ALLOW_MID_VOICES = True,
        VMF = Some [HollowBox, Ent ''npc_bullseye'' ''cave_bullseye'',
                    Ent ''env_microphone'' ''player_speaker_sp'']\<rparr>
   \<and> ADDED_BULLSEYES (add_voice_begin
       \<lparr>map_attr = Map.empty, style_vars = Map.empty, ADDED_BULLSEYES = {''cave_bullseye''},
        QUOTE_EVENTS = [], ALLOW_MID_VOICES = True,
        VMF = Some [HollowBox, Ent ''npc_bullseye'' ''cave_bullseye'',
                    Ent ''env_microphone'' ''player_speaker_sp'']\<rparr>
       Map.empty Map.empty []) = {''cave_bullseye''}
   \<and> add_voice
       \<lparr>map_attr = Map.empty, style_vars = Map.empty, ADDED_BULLSEYES = {''cave_bullseye''},
        QUOTE_EVENTS = [], ALLOW_MID_VOICES = True,
        VMF = Some [HollowBox, Ent ''npc_bullseye'' ''cave_bullseye'',
                    Ent ''env_microphone'' ''player_speaker_sp'']\<rparr>
       Map.empty Map.empty []
       \<lparr>qd_base = None, qd_use_dings = None, qd_events = [], qd_use_microphones = None\<rparr>
       ''SP'' [fixed_group (Some ([Bullseye ''cave_bullseye''], ''@choreo'')) []]
       = Inr \<lparr>map_attr = Map.empty, style_vars = Map.empty, ADDED_BULLSEYES = {''cave_bullseye''},
        QUOTE_EVENTS = [], ALLOW_MID_VOICES = True,
        VMF = Some [HollowBox, Ent ''env_microphone'' ''player_speaker_sp'']\<rparr>"
  using add_voice_first_pass add_voice_second_pass
  by (simp add: add_voice_begin_def res_quote_event_def voice_module_init_def
      casefold_def casefold_char_def)

text \<open>
  C4, amended: the start of each \<open>add_voice\<close> pass sets the map document reference, the
  item-presence map and the style-variable map to the pass's arguments, and leaves the
  registry of quote events and the set of placed bullseye names unchanged. After a pass the
  item-presence map is the argument and the mid-voice switch is set exactly when the
  style variable \<open>nomidvoices\<close> of the argument is not true. The registry and the set are
  not initialised: the pass uses the events registered before it (it keeps their ids,
  replaces the file of a registered id by the prefixed file of the last configured event
  with that id, keeps the file of an id that is not configured, and adds one instance
  \<open>voice_event_i\<close> for each of them to the document), and every bullseye name recorded before
  the pass is still recorded after it and gets no new bullseye entity.
\<close>

theorem add_voice_state:
  "VMF (add_voice_begin m has_items new_style_vars vmf_file) = Some vmf_file
   \<and> map_attr (add_voice_begin m has_items new_style_vars vmf_file) = has_items
   \<and> style_vars (add_voice_begin m has_items new_style_vars vmf_file) = new_style_vars
   \<and> ADDED_BULLSEYES (add_voice_begin m has_items new_style_vars vmf_file) = ADDED_BULLSEYES m
   \<and> QUOTE_EVENTS (add_voice_begin m has_items new_style_vars vmf_file) = QUOTE_EVENTS m
   \<and> (add_voice m has_items new_style_vars vmf_file qd gm grps = Inr m1 \<longrightarrow>
        map_attr m1 = has_items
        \<and> ALLOW_MID_VOICES m1 = (new_style_vars ''nomidvoices'' \<noteq> Some True)
        \<and> QUOTE_EVENTS m1 = quote_events_loop (qd_events qd) (QUOTE_EVENTS m)
        \<and> map fst (QUOTE_EVENTS m1) = map fst (QUOTE_EVENTS m)
        \<and> ADDED_BULLSEYES m \<subseteq> ADDED_BULLSEYES m1
        \<and> (\<exists>new. VMF m1 = Some (vmf_file @ new)
             \<and> (\<forall>i<length (QUOTE_EVENTS m).
                   Ent ''func_instance'' (''voice_event_'' @ nat_str i) \<in> set new)
             \<and> (\<forall>b\<in>ADDED_BULLSEYES m. Ent ''npc_bullseye'' b \<notin> set new)))
   \<and> (casefold i \<noteq> [] \<and> casefold i \<in> fst ` set qe \<longrightarrow>
        map_of (quote_events_loop (evs @ [(i, file)]) qe) (casefold i)
          = Some (INST_PREFIX @ file))
   \<and> ((k, f) \<in> set qe \<and> k \<notin> (\<lambda>e. casefold (fst e)) ` set evs \<longrightarrow>
        (k, f) \<in> set (quote_events_loop evs qe))"
proof -
  have pass: "add_voice m has_items new_style_vars vmf_file qd gm grps = Inr m1 \<longrightarrow>
        map_attr m1 = has_items
        \<and> ALLOW_MID_VOICES m1 = (new_style_vars ''nomidvoices'' \<noteq> Some True)
        \<and> QUOTE_EVENTS m1 = quote_events_loop (qd_events qd) (QUOTE_EVENTS m)
        \<and> map fst (QUOTE_EVENTS m1) = map fst (QUOTE_EVENTS m)
        \<and> ADDED_BULLSEYES m \<subseteq> ADDED_BULLSEYES m1
        \<and> (\<exists>new. VMF m1 = Some (vmf_file @ new)
             \<and> (\<forall>i<length (QUOTE_EVENTS m).
                   Ent ''func_instance'' (''voice_event_'' @ nat_str i) \<in> set new)
             \<and> (\<forall>b\<in>ADDED_BULLSEYES m. Ent ''npc_bullseye'' b \<notin> set new))"
  proof
    assume "add_voice m has_items new_style_vars vmf_file qd gm grps = Inr m1"
    from add_voice_pass [OF this] show "map_attr m1 = has_items
        \<and> ALLOW_MID_VOICES m1 = (new_style_vars ''nomidvoices'' \<noteq> Some True)
        \<and> QUOTE_EVENTS m1 = quote_events_loop (qd_events qd) (QUOTE_EVENTS m)
        \<and> map fst (QUOTE_EVENTS m1) = map fst (QUOTE_EVENTS m)
        \<and> ADDED_BULLSEYES m \<subseteq> ADDED_BULLSEYES m1
        \<and> (\<exists>new. VMF m1 = Some (vmf_file @ new)
             \<and> (\<forall>i<length (QUOTE_EVENTS m).
                   Ent ''func_instance'' (''voice_event_'' @ nat_str i) \<in> set new)
             \<and> (\<forall>b\<in>ADDED_BULLSEYES m. Ent ''npc_bullseye'' b \<notin> set new))"
      by (simp add: quote_events_loop_keys)
  qed
  have last: "casefold i \<noteq> [] \<and> casefold i \<in> fst ` set qe \<longrightarrow>
        map_of (quote_events_loop (evs @ [(i, file)]) qe) (casefold i)
          = Some (INST_PREFIX @ file)"
    using quote_events_loop_last by blast
  have other: "(k, f) \<in> set qe \<and> k \<notin> (\<lambda>e. casefold (fst e)) ` set evs \<longrightarrow>
        (k, f) \<in> set (quote_events_loop evs qe)"
    using quote_events_loop_other by blast
  have start: "VMF (add_voice_begin m has_items new_style_vars vmf_file) = Some vmf_file
   \<and> map_attr (add_voice_begin m has_items new_style_vars vmf_file) = has_items
   \<and> style_vars (add_voice_begin m has_items new_style_vars vmf_file) = new_style_vars
   \<and> ADDED_BULLSEYES (add_voice_begin m has_items new_style_vars vmf_file) = ADDED_BULLSEYES m
   \<and> QUOTE_EVENTS (add_voice_begin m has_items new_style_vars vmf_file) = QUOTE_EVENTS m"
    by (simp add: add_voice_begin_def)
  from start pass last other show ?thesis by blast
qed

theorem add_voice_state_witness:
  "add_voice
      \<lparr>map_attr = Map.empty, style_vars = Map.empty, ADDED_BULLSEYES = {''cave_bullseye''},
        QUOTE_EVENTS = [(''evt'', ''default_evt.vmf'')], ALLOW_MID_VOICES = False,
        VMF = None\<rparr>
      Map.empty Map.empty []
      \<lparr>qd_base = Some ''voice_base.vmf'', qd_use_dings = Some ''1'',
        qd_events = [(''EVT'', ''cave_evt.vmf'')], qd_use_microphones = None\<rparr>
      ''COOP'' [fixed_group (Some ([Bullseye ''cave_bullseye'', Choreo ''cave_01.vcd''], ''@choreo'')) []]
     = Inr \<lparr>map_attr = Map.empty, style_vars = Map.empty, ADDED_BULLSEYES = {''cave_bullseye''},
        QUOTE_EVENTS = [(''evt'', ''instances/BEE2/voice/cave_evt.vmf'')],
        ALLOW_MID_VOICES = True,
        VMF = Some [Ent ''func_instance'' ''voice'', HollowBox,
                    Ent ''logic_choreographed_scene'' ''@ding_on'',
                    Ent ''logic_choreographed_scene'' ''@ding_off'',
                    Ent ''func_instance'' ''voice_event_0'',
                    Ent ''logic_choreographed_scene'' ''@choreo'',
                    Ent ''env_microphone'' ''player_speaker_blue'',
                    Ent ''env_microphone'' ''player_speaker_orange'']\<rparr>
   \<and> ALLOW_MID_VOICES
      \<lparr>map_attr = Map.empty, style_vars = Map.empty, ADDED_BULLSEYES = {''cave_bullseye''},
        QUOTE_EVENTS = [(''evt'', ''instances/BEE2/voice/cave_evt.vmf'')],
        ALLOW_MID_VOICES = True,
        VMF = Some [Ent ''func_instance'' ''voice'', HollowBox,
                    Ent ''logic_choreographed_scene'' ''@ding_on'',
                    Ent ''logic_choreographed_scene'' ''@ding_off'',
                    Ent ''func_instance'' ''voice_event_0'',
                    Ent ''logic_choreographed_scene'' ''@choreo'',
                    Ent ''env_microphone'' ''player_speaker_blue'',
                    Ent ''env_microphone'' ''player_speaker_orange'']\<rparr>
   \<and> QUOTE_EVENTS
      \<lparr>map_attr = Map.empty, style_vars = Map.empty, ADDED_BULLSEYES = {''cave_bullseye''},
        QUOTE_EVENTS = [(''evt'', ''instances/BEE2/voice/cave_evt.vmf'')],
        ALLOW_MID_VOICES = True,
        VMF = Some [Ent ''func_instance'' ''voice'', HollowBox,
                    Ent ''logic_choreographed_scene'' ''@ding_on'',
                    Ent ''logic_choreographed_scene'' ''@ding_off'',
                    Ent ''func_instance'' ''voice_event_0'',
                    Ent ''logic_choreographed_scene'' ''@choreo'',
                    Ent ''env_microphone'' ''player_speaker_blue'',
                    Ent ''env_microphone'' ''player_speaker_orange'']\<rparr>
      = quote_events_loop [(''EVT'', ''cave_evt.vmf'')] [(''evt'', ''default_evt.vmf'')]
   \<and> map_of (quote_events_loop ([] @ [(''EVT'', ''cave_evt.vmf'')]) [(''evt'', ''default_evt.vmf'')])
        (casefold ''EVT'') = Some (INST_PREFIX @ ''cave_evt.vmf'')"
  using add_voice_state [of
      "\<lparr>map_attr = Map.empty, style_vars = Map.empty, ADDED_BULLSEYES = {''cave_bullseye''},
        QUOTE_EVENTS = [(''evt'', ''default_evt.vmf'')], ALLOW_MID_VOICES = False,
        VMF = None\<rparr>"
      Map.empty Map.empty "[]"
      "\<lparr>qd_base = Some ''voice_base.vmf'', qd_use_dings = Some ''1'',
        qd_events = [(''EVT'', ''cave_evt.vmf'')], qd_use_microphones = None\<rparr>"
      "''COOP''" "[fixed_group (Some ([Bullseye ''cave_bullseye'', Choreo ''cave_01.vcd''], ''@choreo'')) []]"
      "\<lparr>map_attr = Map.empty, style_vars = Map.empty, ADDED_BULLSEYES = {''cave_bullseye''},
        QUOTE_EVENTS = [(''evt'', ''instances/BEE2/voice/cave_evt.vmf'')],
        ALLOW_MID_VOICES = True,
        VMF = Some [Ent ''func_instance'' ''voice'', HollowBox,
                    Ent ''logic_choreographed_scene'' ''@ding_on'',
                    Ent ''logic_choreographed_scene'' ''@ding_off'',
                    Ent ''func_instance'' ''voice_event_0'',
                    Ent ''logic_choreographed_scene'' ''@choreo'',
                    Ent ''env_microphone'' ''player_speaker_blue'',
                    Ent ''env_microphone'' ''player_speaker_orange'']\<rparr>"
      "''EVT''" "[(''evt'', ''default_evt.vmf'')]" "[]" "''cave_evt.vmf''"]
    add_voice_event_pass
  by (simp add: casefold_def casefold_char_def INST_PREFIX_def)

section \<open>Properties of conv_bool\<close>

text \<open>
  C10: \<open>conv_bool\<close> absorbs a failed lookup into the default only for text, and returns
  without an error only for text, booleans, the numbers 0 and 1, and \<open>None\<close>: on any other
  value that is not a key of the table (the integer 2, the float 2.5) it raises
  \<open>AttributeError\<close>, whatever the default.
\<close>

theorem conv_bool_attribute_error:
  "conv_bool val dflt = Inl AttributeError \<longleftrightarrow>
     (val \<noteq> PyNone \<and> (\<forall>s. val \<noteq> PyStr s) \<and> BOOL_LOOKUP val = None)"
  by (cases val) (simp_all split: option.splits)

theorem conv_bool_attribute_error_witness:
  "conv_bool (PyInt 2) True = Inl AttributeError
   \<and> conv_bool (PyFloat (5 / 2)) False = Inl AttributeError
   \<and> conv_bool (PyBytes ''1'') False = Inl AttributeError
   \<and> conv_bool (PyInt 1) False \<noteq> Inl AttributeError
   \<and> conv_bool (PyStr ''maybe'') True \<noteq> Inl AttributeError"
  by (simp only: conv_bool_attribute_error) simp

section \<open>Properties of EmptyMapping\<close>

lemma em_apply_ok: "\<exists>r. em_apply m self = (Inr r, self)"
  by (cases m)
     (simp_all add: em_setitem_def em_delitem_def em_update_def em_clear_def
        em_setdefault_def em_get_def em_pop_def)

lemma em_run_ok: "em_run ms self = Inr self"
proof (induction ms)
  case Nil
  show ?case by simp
next
  case (Cons m ms)
  obtain r where "em_apply m self = (Inr r, self)"
    using em_apply_ok by blast
  with Cons show ?case by simp
qed

text \<open>
  C9: the shared \<open>EmptyMapping\<close> instance is unchanged by every sequence of mutating
  operations (\<open>__setitem__\<close>, \<open>__delitem__\<close>, \<open>update\<close>, \<open>clear\<close>, \<open>setdefault\<close>, \<open>pop\<close> with a
  default): none of them raises, and afterwards the length is 0, iteration yields nothing,
  no key is contained and the truth value is false, while \<open>__getitem__\<close>, \<open>pop\<close> without a
  default and \<open>popitem\<close> raise \<open>KeyError\<close>.
\<close>

theorem EmptyMapping_always_empty:
  "\<exists>self'. em_run ms EmptyMappingObj = Inr self'
     \<and> em_len self' = 0
     \<and> em_items (Suc fuel) self' = Some (Inr [])
     \<and> \<not> em_contains self' k
     \<and> \<not> em_bool self'
     \<and> fst (em_getitem self' k) = Inl KeyError
     \<and> fst (em_pop self' k None) = Inl KeyError
     \<and> fst (em_popitem self') = Inl KeyError"
  by (simp add: em_run_ok em_len_def em_items_def em_iter_def em_next_def
      em_contains_def em_bool_def em_getitem_def em_pop_def em_popitem_def)

section \<open>Properties of get_indent\<close>

lemma get_indent_loop_eq:
  "get_indent_loop white line =
     (if list_all is_indent_char line then None
      else Some (white @ takeWhile is_indent_char line))"
  by (induction line arbitrary: white) simp_all

text \<open>
  C8: \<open>get_indent\<close> returns no string at all (\<open>None\<close>) whenever the line is empty or
  consists only of spaces and tabs; otherwise, and only then, it returns the leading run of
  spaces and tabs.
\<close>

theorem get_indent_none_or_leading_run:
  "get_indent line =
     (if list_all is_indent_char line then None
      else Some (takeWhile is_indent_char line))"
  by (simp add: get_indent_def get_indent_loop_eq)

theorem get_indent_none_or_leading_run_witness:
  "get_indent '''' = None
   \<and> get_indent [CHR '' '', CHR 0x09, CHR '' ''] = None
   \<and> get_indent ('' '' @ [CHR 0x09] @ ''ab c'') = Some ('' '' @ [CHR 0x09])
   \<and> get_indent ''x  '' = Some ''''"
  by (simp add: get_indent_none_or_leading_run is_indent_char_def)

end
